theory Spec2Isabelle
  imports Complex_Main "HOL-Library.AList" "HOL-Library.Sublist" "HOL-Library.Log_Nat"
begin

section \<open>Resource specification of a raylet: \<open>python/ray/_private/resource_spec.py\<close>\<close>

text \<open>
  A shallow embedding of \<open>ResourceSpec\<close> (its \<open>resolved\<close>, \<open>to_resource_dict\<close> and
  \<open>resolve\<close> methods) and of the accelerator detection helpers of the same module.
  Every \<open>raise\<close> and every failing \<open>assert\<close> of the source is a value \<open>Inl e\<close> of the
  result type; everything the module reads from the machine (platform, memory sizes,
  environment variables, driver files, optional libraries) is a field of an explicit
  environment record.
\<close>

subsection \<open>Python numbers\<close>

text \<open>
  Resource quantities are Python \<open>int\<close>s or \<open>float\<close>s. An \<open>int\<close> is unbounded; a \<open>float\<close>
  is an IEEE double, modelled by the rational number it denotes. Infinities and NaN
  are not part of the model: it covers the doubles of the finite range, below \<open>2^1024\<close>
  in magnitude. Python compares an \<open>int\<close> with a \<open>float\<close> by their exact values, which
  is \<open>value_of\<close>.
\<close>

datatype pynum = PInt int | PFloat rat

fun value_of :: "pynum \<Rightarrow> rat" where
  "value_of (PInt i) = of_int i"
| "value_of (PFloat r) = r"

fun is_float :: "pynum \<Rightarrow> bool" where
  "is_float (PInt i) = False"
| "is_float (PFloat r) = True"

definition py_lt :: "pynum \<Rightarrow> pynum \<Rightarrow> bool" where
  "py_lt a b = (value_of a < value_of b)"

definition py_gt :: "pynum \<Rightarrow> pynum \<Rightarrow> bool" where
  "py_gt a b = (value_of b < value_of a)"

text \<open>\<open>min(a, b)\<close> and \<open>max(a, b)\<close> return the first argument unless the second is
  strictly smaller (larger); the result keeps the type of the argument returned.\<close>

definition py_min :: "pynum \<Rightarrow> pynum \<Rightarrow> pynum" where
  "py_min a b = (if py_lt b a then b else a)"

definition py_max :: "pynum \<Rightarrow> pynum \<Rightarrow> pynum" where
  "py_max a b = (if py_gt b a then b else a)"

text \<open>The exact product of two quantities, an \<open>int\<close> when both are; it stands for the
  product \<open>avail_memory * 0.1\<close> that \<open>int\<close> truncates at once in the default of the
  redis cap.\<close>

fun py_mul :: "pynum \<Rightarrow> pynum \<Rightarrow> pynum" where
  "py_mul (PInt a) (PInt b) = PInt (a * b)"
| "py_mul a b = PFloat (value_of a * value_of b)"

text \<open>
  Rounding to the nearest double, ties to the even significand: \<open>binade a\<close> is the
  exponent \<open>e\<close> with \<open>2^e \<le> a < 2^(e+1)\<close> of a positive number, the doubles at this
  exponent are the multiples of \<open>2^(e-52)\<close>, and below \<open>2^(-1022)\<close> (the subnormal
  doubles) the multiples of \<open>2^(-1074)\<close>.
\<close>

definition pow2 :: "int \<Rightarrow> rat" where
  "pow2 k = (if 0 \<le> k then 2 ^ nat k else 1 / 2 ^ nat (- k))"

definition binade :: "rat \<Rightarrow> int" where
  "binade a =
     (let (p, q) = quotient_of a;
          k = bitlen p - bitlen q
      in if a < pow2 k then k - 1 else k)"

definition round_half_even :: "rat \<Rightarrow> int" where
  "round_half_even r =
     (let below = \<lfloor>r\<rfloor>;
          rest = r - of_int below
      in if rest < 1 / 2 then below
         else if 1 / 2 < rest then below + 1
         else if even below then below else below + 1)"

definition double :: "rat \<Rightarrow> rat" where
  "double r =
     (if r = 0 then 0
      else
        let a = \<bar>r\<bar>;
            ulp = pow2 (max (binade a) (- 1022) - 52)
        in sgn r * of_int (round_half_even (a / ulp)) * ulp)"

text \<open>\<open>float(x)\<close>, the conversion that \<open>*\<close> and \<open>-\<close> apply to an \<open>int\<close> operand when the
  other operand is a \<open>float\<close>: the nearest double.\<close>

fun py_float :: "pynum \<Rightarrow> rat" where
  "py_float (PInt i) = double (of_int i)"
| "py_float (PFloat r) = r"

text \<open>
  The operators \<open>*\<close> and \<open>-\<close> of Python: exact on two \<open>int\<close>s; with a \<open>float\<close> operand
  the result is the double nearest to the product (difference) of the two doubles.
  A literal such as \<open>0.95\<close> is the double nearest to the decimal number.
\<close>

fun ieee_mul :: "pynum \<Rightarrow> pynum \<Rightarrow> pynum" where
  "ieee_mul (PInt a) (PInt b) = PInt (a * b)"
| "ieee_mul a b = PFloat (double (py_float a * py_float b))"

fun ieee_sub :: "pynum \<Rightarrow> pynum \<Rightarrow> pynum" where
  "ieee_sub (PInt a) (PInt b) = PInt (a - b)"
| "ieee_sub a b = PFloat (double (py_float a - py_float b))"

definition float_literal :: "rat \<Rightarrow> pynum" where
  "float_literal r = PFloat (double r)"

text \<open>\<open>int(x)\<close> truncates a float towards zero.\<close>

definition trunc :: "rat \<Rightarrow> int" where
  "trunc r = (if 0 \<le> r then \<lfloor>r\<rfloor> else \<lceil>r\<rceil>)"

fun py_int :: "pynum \<Rightarrow> int" where
  "py_int (PInt i) = i"
| "py_int (PFloat r) = trunc r"

text \<open>\<open>float.is_integer()\<close>.\<close>

definition is_integer :: "rat \<Rightarrow> bool" where
  "is_integer r = (of_int \<lfloor>r\<rfloor> = r)"

subsection \<open>Dictionaries\<close>

text \<open>
  A Python \<open>dict\<close> keeps its keys in insertion order, and the order decides which entry
  \<open>to_resource_dict\<close> rejects first, so a dictionary is an association list.
  \<open>AList.update\<close> is \<open>d[k] = v\<close>: it overwrites the value of a key already present in
  place and appends a new key at the end.
\<close>

type_synonym pydict = "(string \<times> pynum) list"

definition has_key :: "string \<Rightarrow> pydict \<Rightarrow> bool" where
  "has_key k d = (k \<in> fst ` set d)"

text \<open>\<open>d.update(other)\<close>: the entries of \<open>other\<close> are stored one by one, in its order.\<close>

fun dict_update :: "pydict \<Rightarrow> pydict \<Rightarrow> pydict" where
  "dict_update d [] = d"
| "dict_update d ((k, v) # other) = dict_update (AList.update k v d) other"

subsection \<open>Errors\<close>

text \<open>
  The module raises \<open>ValueError\<close> with different messages, \<open>AssertionError\<close> from its
  \<open>assert\<close> statements (modelled as enabled, the interpreter's default) and, at one
  place, \<open>UnboundLocalError\<close>, a subclass of \<open>NameError\<close>. One constructor stands for
  each class and raise site:
  \<^item> \<open>AssertionError_reserved\<close>: the four \<open>assert ... not in resources\<close> of \<open>resolve\<close>;
  \<^item> \<open>AssertionError_unresolved\<close>: \<open>assert self.resolved()\<close>, \<open>assert spec.resolved()\<close>;
  \<^item> \<open>ValueError_reserved_head\<close>: "... is a reserved resource name, use another name instead.";
  \<^item> \<open>ValueError_visible_devices\<close>: "Attempting to start raylet with ... GPUs, but
    CUDA_VISIBLE_DEVICES contains ..." and its XPU twin;
  \<^item> \<open>ValueError_redis_minimum\<close>: "Attempting to cap Redis memory usage at ... bytes, but
    the minimum allowed is ... bytes.";
  \<^item> \<open>ValueError_insufficient_memory\<close>: "After taking into account object store and
    redis memory usage, the amount of memory on this node available for tasks and
    actors ... is less than ...% of total.";
  \<^item> \<open>ValueError_not_whole\<close>, \<open>ValueError_negative\<close>, \<open>ValueError_exceeds_max\<close>: the three
    messages of \<open>to_resource_dict\<close>;
  \<^item> \<open>UnboundLocalError_num_gpus\<close>: reading the local \<open>num_gpus\<close> that no branch assigned;
  \<^item> \<open>ZeroDivisionError\<close>: \<open>memory / system_memory\<close> while the message of
    \<open>ValueError_insufficient_memory\<close> is formatted;
  \<^item> \<open>Propagated name\<close>: an exception of class \<open>name\<close> raised by a probe of the machine
    and not caught by the module.
\<close>

datatype error =
    AssertionError_reserved
  | AssertionError_unresolved
  | ValueError_reserved_head
  | ValueError_visible_devices
  | ValueError_redis_minimum
  | ValueError_insufficient_memory
  | ValueError_not_whole
  | ValueError_negative
  | ValueError_exceeds_max
  | UnboundLocalError_num_gpus
  | ZeroDivisionError
  | Propagated string

subsection \<open>Constants of \<open>ray_constants\<close>\<close>

text \<open>
  The module \<open>ray._private.ray_constants\<close> is not part of the sources at hand; the
  constants \<open>resource_spec.py\<close> reads from it are parameters of the model.
\<close>

record ray_constants =
  MAX_RESOURCE_QUANTITY :: pynum
  DEFAULT_OBJECT_STORE_MEMORY_PROPORTION :: pynum
  MAC_DEGRADED_PERF_MMAP_SIZE_LIMIT :: pynum
  DEFAULT_OBJECT_STORE_MAX_MEMORY_BYTES :: pynum
  REQUIRE_SHM_SIZE_THRESHOLD :: pynum
  DEFAULT_REDIS_MAX_MEMORY_BYTES :: pynum
  REDIS_MINIMUM_MEMORY_BYTES :: pynum
  RESOURCE_CONSTRAINT_PREFIX :: string

subsection \<open>\<open>ResourceSpec\<close>\<close>

text \<open>The named tuple; every field can be \<open>None\<close>.\<close>

record ResourceSpec =
  num_cpus :: "pynum option"
  num_gpus :: "pynum option"
  memory :: "pynum option"
  object_store_memory :: "pynum option"
  resources :: "pydict option"
  redis_max_memory :: "pynum option"

definition resolved :: "ResourceSpec \<Rightarrow> bool" where
  "resolved s =
     (num_cpus s \<noteq> None \<and> num_gpus s \<noteq> None \<and> memory s \<noteq> None \<and>
      object_store_memory s \<noteq> None \<and> resources s \<noteq> None \<and> redis_max_memory s \<noteq> None)"

text \<open>
  The checking loop of \<open>to_resource_dict\<close>: the first entry that violates a condition
  raises, with the first of the three messages that applies to it.
  \<open>assert isinstance(resource_quantity, int) or isinstance(resource_quantity, float)\<close>
  holds for every \<open>pynum\<close>.
\<close>

fun check_quantities :: "ray_constants \<Rightarrow> pydict \<Rightarrow> error option" where
  "check_quantities c [] = None"
| "check_quantities c ((resource_label, resource_quantity) # rest) =
     (if is_float resource_quantity \<and> \<not> is_integer (value_of resource_quantity)
        then Some ValueError_not_whole
      else if py_lt resource_quantity (PInt 0) then Some ValueError_negative
      else if py_gt resource_quantity (MAX_RESOURCE_QUANTITY c) then Some ValueError_exceeds_max
      else check_quantities c rest)"

text \<open>\<open>dict(self.resources, CPU=..., GPU=..., memory=int(...), object_store_memory=int(...))\<close>:
  a copy of the custom resources with the four keys stored in this order.\<close>

definition merged_resources :: "ResourceSpec \<Rightarrow> pydict" where
  "merged_resources s =
     AList.update ''object_store_memory'' (PInt (py_int (the (object_store_memory s))))
       (AList.update ''memory'' (PInt (py_int (the (memory s))))
         (AList.update ''GPU'' (the (num_gpus s))
           (AList.update ''CPU'' (the (num_cpus s)) (the (resources s)))))"

definition nonzero_entries :: "pydict \<Rightarrow> pydict" where
  "nonzero_entries d = filter (\<lambda>(resource_label, resource_quantity). value_of resource_quantity \<noteq> 0) d"

definition to_resource_dict :: "ray_constants \<Rightarrow> ResourceSpec \<Rightarrow> error + pydict" where
  "to_resource_dict c s =
     (if \<not> resolved s then Inl AssertionError_unresolved
      else
        let resources = nonzero_entries (merged_resources s)
        in case check_quantities c resources of
             Some e \<Rightarrow> Inl e
           | None \<Rightarrow> Inr resources)"

subsection \<open>The machine\<close>

text \<open>
  What the module reads from its surroundings, each field the result of one call or
  expression of the source. A probe that can raise has a sum type, \<open>Inl name\<close> being
  an exception of class \<open>name\<close> (a subclass of \<open>Exception\<close>):
  \<^item> \<open>get_node_ip_address\<close>: \<open>ray.util.get_node_ip_address()\<close>;
  \<^item> \<open>get_num_cpus\<close>, \<open>get_current_accelerator\<close>, \<open>get_system_memory\<close>,
    \<open>estimate_available_memory\<close>, \<open>get_shared_memory_bytes\<close>,
    \<open>get_cuda_visible_devices\<close>, \<open>get_xpu_visible_devices\<close>: the functions of
    \<open>ray._private.utils\<close> of these names (the two last return \<open>None\<close> when the variable
    is not set);
  \<^item> \<open>sys_platform\<close>: \<open>sys.platform\<close>;
  \<^item> \<open>find_spec_GPUtil\<close>: whether \<open>importlib.util.find_spec("GPUtil")\<close> is not \<open>None\<close>;
  \<^item> \<open>GPUtil_getGPUs\<close>: the names of the GPUs that \<open>GPUtil.getGPUs()\<close> lists, or the
    exception of that expression (a \<open>NameError\<close> when the import at the top of the
    module failed);
  \<^item> \<open>proc_gpus_isdir\<close>, \<open>proc_gpus_listdir\<close>: \<open>os.path.isdir\<close> and \<open>os.listdir\<close> of
    \<open>/proc/driver/nvidia/gpus\<close>;
  \<^item> \<open>read_information d\<close>: \<open>open("/proc/driver/nvidia/gpus/d/information").read()\<close>;
  \<^item> \<open>WMIC_lines\<close>: \<open>subprocess.check_output(cmdargs).splitlines()\<close>;
  \<^item> \<open>dpctl_get_devices\<close>: \<open>import dpctl\<close> followed by \<open>dpctl.get_devices(...)\<close>.
\<close>

datatype dpctl_result =
    Dpctl_ImportError
  | Dpctl_raises string
  | Dpctl_devices "string list"

record machine =
  get_node_ip_address :: string
  get_num_cpus :: int
  get_current_accelerator :: string
  get_system_memory :: int
  estimate_available_memory :: int
  get_shared_memory_bytes :: int
  sys_platform :: string
  get_cuda_visible_devices :: "string list option"
  get_xpu_visible_devices :: "string list option"
  find_spec_GPUtil :: bool
  GPUtil_getGPUs :: "string + string list"
  proc_gpus_isdir :: bool
  proc_gpus_listdir :: "string + string list"
  read_information :: "string \<Rightarrow> string + string"
  WMIC_lines :: "string + string list"
  dpctl_get_devices :: dpctl_result

subsection \<open>Strings\<close>

text \<open>
  The characters of the model are bytes; on ASCII text \<open>\s\<close> and \<open>str.strip()\<close> take the
  same whitespace, and \<open>\w\<close> is a letter, a digit or the underscore.
\<close>

definition is_space :: "char \<Rightarrow> bool" where
  "is_space ch =
     (ch \<in> {CHR 0x09, CHR 0x0A, CHR 0x0B, CHR 0x0C, CHR 0x0D,
            CHR 0x1C, CHR 0x1D, CHR 0x1E, CHR 0x1F, CHR '' ''})"

definition is_upper_or_digit :: "char \<Rightarrow> bool" where
  "is_upper_or_digit ch = (ch \<in> set ''ABCDEFGHIJKLMNOPQRSTUVWXYZ0123456789'')"

definition is_word :: "char \<Rightarrow> bool" where
  "is_word ch = (is_upper_or_digit ch \<or> ch \<in> set ''abcdefghijklmnopqrstuvwxyz_'')"

text \<open>\<open>s.split(sep)\<close> for a separator of one character: never an empty list.\<close>

fun split_on :: "char \<Rightarrow> string \<Rightarrow> string list" where
  "split_on sep [] = [[]]"
| "split_on sep (ch # s) =
     (if ch = sep then [] # split_on sep s
      else case split_on sep s of
             [] \<Rightarrow> [[ch]]
           | piece # pieces \<Rightarrow> (ch # piece) # pieces)"

definition strip :: "string \<Rightarrow> string" where
  "strip s = rev (dropWhile is_space (rev (dropWhile is_space s)))"

text \<open>
  \<open>GPU_NAME_PATTERN = re.compile(r"\w+\s+([A-Z0-9]+)")\<close>, matched at the start of the
  name. The three character classes that follow one another are disjoint, so the only
  match takes the longest run of each; the result is group 1.
\<close>

definition pretty_gpu_name :: "string option \<Rightarrow> string option" where
  "pretty_gpu_name name =
     (case name of
        None \<Rightarrow> None
      | Some n \<Rightarrow>
          let after_word = dropWhile is_word n;
              after_space = dropWhile is_space after_word;
              group1 = takeWhile is_upper_or_digit after_space
          in if takeWhile is_word n \<noteq> [] \<and> takeWhile is_space after_word \<noteq> [] \<and> group1 \<noteq> []
             then Some group1 else None)"

subsection \<open>Accelerator detection\<close>

text \<open>\<open>if pretty_name: return {constraint_name: 1}\<close>, else \<open>{}\<close>; an empty string is falsy.\<close>

definition constraint_of :: "ray_constants \<Rightarrow> string option \<Rightarrow> pydict" where
  "constraint_of c pretty_name =
     (case pretty_name of
        None \<Rightarrow> []
      | Some p \<Rightarrow> if p = [] then [] else [(RESOURCE_CONSTRAINT_PREFIX c @ p, PInt 1)])"

definition autodetect_num_gpus :: "machine \<Rightarrow> error + int" where
  "autodetect_num_gpus m =
     (if find_spec_GPUtil m then
        (case GPUtil_getGPUs m of
           Inl e \<Rightarrow> Inl (Propagated e)
         | Inr gpu_list \<Rightarrow> Inr (int (length gpu_list)))
      else if prefix ''linux'' (sys_platform m) then
        (if proc_gpus_isdir m then
           (case proc_gpus_listdir m of
              Inl e \<Rightarrow> Inl (Propagated e)
            | Inr gpu_dirs \<Rightarrow> Inr (int (length gpu_dirs)))
         else Inr 0)
      else if sys_platform m = ''win32'' then
        (case WMIC_lines m of
           Inl e \<Rightarrow> Inl (Propagated e)
         | Inr lines \<Rightarrow> Inr (int (length (filter (prefix ''NVIDIA'') (drop 1 lines)))))
      else Inr 0)"

text \<open>\<open>gpu_list_names.pop()\<close> is the name of the last GPU listed.\<close>

definition get_gpu_types_gputil :: "ray_constants \<Rightarrow> machine \<Rightarrow> string + pydict" where
  "get_gpu_types_gputil c m =
     (case GPUtil_getGPUs m of
        Inl e \<Rightarrow> Inl e
      | Inr gpu_list \<Rightarrow>
          if length gpu_list > 0
          then Inr (constraint_of c (pretty_gpu_name (Some (last gpu_list))))
          else Inr [])"

text \<open>The loop over the lines of the information file: the first line that has exactly
  one colon and the key \<open>Model\<close> gives the full model name.\<close>

fun find_model :: "string list \<Rightarrow> string option" where
  "find_model [] = None"
| "find_model (line # lines) =
     (case split_on (CHR '':'') line of
        [k, v] \<Rightarrow> if strip k = ''Model'' then Some (strip v) else find_model lines
      | _ \<Rightarrow> find_model lines)"

definition constraints_from_gpu_info :: "ray_constants \<Rightarrow> string option \<Rightarrow> pydict" where
  "constraints_from_gpu_info c info_str =
     (case info_str of
        None \<Rightarrow> []
      | Some info \<Rightarrow> constraint_of c (pretty_gpu_name (find_model (split_on (CHR 0x0A) info))))"

definition get_gpu_info_string :: "machine \<Rightarrow> string + string option" where
  "get_gpu_info_string m =
     (if prefix ''linux'' (sys_platform m) \<and> proc_gpus_isdir m then
        (case proc_gpus_listdir m of
           Inl e \<Rightarrow> Inl e
         | Inr gpu_dirs \<Rightarrow>
             if length gpu_dirs > 0 then
               (case read_information m (hd gpu_dirs) of
                  Inl e \<Rightarrow> Inl e
                | Inr info_str \<Rightarrow> Inr (Some info_str))
             else Inr None)
      else Inr None)"

text \<open>
  The \<open>try\<close> block of \<open>_get_cuda_info\<close>: any exception leaves \<open>gpu_types\<close> at its initial
  value, the empty string, and \<open>resources.update("")\<close> stores nothing, as the update
  with an empty dictionary does.
\<close>

definition cuda_gpu_types :: "ray_constants \<Rightarrow> machine \<Rightarrow> pydict" where
  "cuda_gpu_types c m =
     (if find_spec_GPUtil m then
        (case get_gpu_types_gputil c m of Inl e \<Rightarrow> [] | Inr gpu_types \<Rightarrow> gpu_types)
      else
        (case get_gpu_info_string m of
           Inl e \<Rightarrow> []
         | Inr info_string \<Rightarrow> constraints_from_gpu_info c info_string))"

definition get_cuda_info :: "ray_constants \<Rightarrow> machine \<Rightarrow> pynum option \<Rightarrow> error + pynum \<times> pydict" where
  "get_cuda_info c m num_gpus0 =
     (let gpu_ids = get_cuda_visible_devices m in
      if num_gpus0 \<noteq> None \<and> gpu_ids \<noteq> None \<and>
         py_gt (the num_gpus0) (PInt (int (length (the gpu_ids))))
      then Inl ValueError_visible_devices
      else
        case num_gpus0 of
          Some n \<Rightarrow> Inr (n, cuda_gpu_types c m)
        | None \<Rightarrow>
            (case autodetect_num_gpus m of
               Inl e \<Rightarrow> Inl e
             | Inr detected \<Rightarrow>
                 Inr (case gpu_ids of
                        None \<Rightarrow> PInt detected
                      | Some ids \<Rightarrow> py_min (PInt detected) (PInt (int (length ids))),
                      cuda_gpu_types c m)))"

definition get_xpu_info :: "ray_constants \<Rightarrow> machine \<Rightarrow> pynum option \<Rightarrow> error + pynum \<times> pydict" where
  "get_xpu_info c m num_xpus0 =
     (let xpu_ids = get_xpu_visible_devices m;
          xpu_types = [(RESOURCE_CONSTRAINT_PREFIX c @ ''xpu'', PInt 1)] in
      if num_xpus0 \<noteq> None \<and> xpu_ids \<noteq> None \<and>
         py_gt (the num_xpus0) (PInt (int (length (the xpu_ids))))
      then Inl ValueError_visible_devices
      else
        case num_xpus0 of
          Some n \<Rightarrow> Inr (n, xpu_types)
        | None \<Rightarrow>
            (case (case dpctl_get_devices m of
                     Dpctl_ImportError \<Rightarrow> Inr 0
                   | Dpctl_raises e \<Rightarrow> Inl (Propagated e)
                   | Dpctl_devices devices \<Rightarrow> Inr (int (length devices))) of
               Inl e \<Rightarrow> Inl e
             | Inr detected \<Rightarrow>
                 Inr (case xpu_ids of
                        None \<Rightarrow> PInt detected
                      | Some ids \<Rightarrow> py_min (PInt detected) (PInt (int (length ids))),
                      xpu_types)))"

subsection \<open>\<open>ResourceSpec.resolve\<close>\<close>

definition NODE_ID_PREFIX :: string where
  "NODE_ID_PREFIX = ''node:''"

definition HEAD_NODE_RESOURCE_NAME :: string where
  "HEAD_NODE_RESOURCE_NAME = NODE_ID_PREFIX @ ''__internal_head__''"

text \<open>
  \<open>resolve\<close> is one function in the source; the model follows it block by block, each
  block a definition of its own, and \<open>resolve\<close> below runs them in the source's order.

  First block (the copy of the custom resources up to \<open>resources[HEAD_NODE_RESOURCE_NAME] = 1.0\<close>):
  the four assertions, the node id resource, the reserved head node name.
\<close>

definition resolve_resources :: "machine \<Rightarrow> ResourceSpec \<Rightarrow> bool \<Rightarrow> string option \<Rightarrow> error + pydict" where
  "resolve_resources m self is_head node_ip_address =
     (let copied = (case resources self of None \<Rightarrow> [] | Some d \<Rightarrow> d) in
      if has_key ''CPU'' copied \<or> has_key ''GPU'' copied \<or> has_key ''memory'' copied \<or>
         has_key ''object_store_memory'' copied
      then Inl AssertionError_reserved
      else
        let address = (case node_ip_address of None \<Rightarrow> get_node_ip_address m | Some a \<Rightarrow> a);
            with_node = AList.update (NODE_ID_PREFIX @ address) (PFloat 1) copied
        in if has_key HEAD_NODE_RESOURCE_NAME with_node then Inl ValueError_reserved_head
           else if is_head then Inr (AList.update HEAD_NODE_RESOURCE_NAME (PFloat 1) with_node)
           else Inr with_node)"

text \<open>
  Second block ("Get accelerate device info"): the local \<open>num_gpus\<close> is assigned in the
  \<open>CUDA\<close> and \<open>XPU\<close> branches only; \<open>None\<close> in the first component of the result is the
  unassigned local.
\<close>

definition resolve_accelerator ::
  "ray_constants \<Rightarrow> machine \<Rightarrow> ResourceSpec \<Rightarrow> pydict \<Rightarrow> error + pynum option \<times> pydict" where
  "resolve_accelerator c m self res =
     (let accelerator = get_current_accelerator m in
      if accelerator = ''CUDA'' then
        (case get_cuda_info c m (num_gpus self) of
           Inl e \<Rightarrow> Inl e
         | Inr (n, gpu_types) \<Rightarrow> Inr (Some n, dict_update res gpu_types))
      else if accelerator = ''XPU'' then
        (case get_xpu_info c m (num_gpus self) of
           Inl e \<Rightarrow> Inl e
         | Inr (n, gpu_types) \<Rightarrow> Inr (Some n, dict_update res gpu_types))
      else Inr (None, res))"

text \<open>Third block ("Choose a default object store size"); it raises nowhere.\<close>

definition resolve_object_store_memory :: "ray_constants \<Rightarrow> machine \<Rightarrow> ResourceSpec \<Rightarrow> pynum" where
  "resolve_object_store_memory c m self =
     (case object_store_memory self of
        Some given \<Rightarrow> given
      | None \<Rightarrow>
          let avail_memory = PInt (estimate_available_memory m);
              proportional = PInt (py_int (ieee_mul avail_memory (DEFAULT_OBJECT_STORE_MEMORY_PROPORTION c)));
              on_mac = (if sys_platform m = ''darwin''
                        then py_min proportional (MAC_DEGRADED_PERF_MMAP_SIZE_LIMIT c)
                        else proportional);
              max_cap = (if sys_platform m = ''linux'' \<or> sys_platform m = ''linux2''
                         then
                           let shm_avail = ieee_mul (PInt (get_shared_memory_bytes m)) (float_literal (95 / 100))
                           in py_min (py_max (REQUIRE_SHM_SIZE_THRESHOLD c) shm_avail)
                                (DEFAULT_OBJECT_STORE_MAX_MEMORY_BYTES c)
                         else DEFAULT_OBJECT_STORE_MAX_MEMORY_BYTES c)
          in if py_gt on_mac max_cap then max_cap else on_mac)"

text \<open>Fourth block: the cap of the redis shards, its default and its minimum.\<close>

definition default_redis_max_memory :: "ray_constants \<Rightarrow> machine \<Rightarrow> pynum" where
  "default_redis_max_memory c m =
     py_min (DEFAULT_REDIS_MAX_MEMORY_BYTES c)
       (py_max (PInt (py_int (py_mul (PInt (estimate_available_memory m)) (PFloat (1 / 10)))))
          (REDIS_MINIMUM_MEMORY_BYTES c))"

definition resolve_redis_max_memory :: "ray_constants \<Rightarrow> machine \<Rightarrow> ResourceSpec \<Rightarrow> error + pynum" where
  "resolve_redis_max_memory c m self =
     (let cap = (case redis_max_memory self of
                   Some given \<Rightarrow> given
                 | None \<Rightarrow> default_redis_max_memory c m)
      in if py_lt cap (REDIS_MINIMUM_MEMORY_BYTES c) then Inl ValueError_redis_minimum else Inr cap)"

text \<open>
  Fifth block: the memory left for tasks and actors,
  \<open>avail_memory - object_store_memory - (redis_max_memory if is_head else 0)\<close>, and the
  floor \<open>0.05 * system_memory\<close>. The message of the \<open>ValueError\<close> divides by
  \<open>system_memory\<close> before the exception is raised.
\<close>

definition memory_left :: "machine \<Rightarrow> bool \<Rightarrow> pynum \<Rightarrow> pynum \<Rightarrow> pynum" where
  "memory_left m is_head osm redis =
     ieee_sub (ieee_sub (PInt (estimate_available_memory m)) osm)
       (if is_head then redis else PInt 0)"

definition five_percent :: "machine \<Rightarrow> pynum" where
  "five_percent m = ieee_mul (float_literal (5 / 100)) (PInt (get_system_memory m))"

definition resolve_memory :: "machine \<Rightarrow> ResourceSpec \<Rightarrow> bool \<Rightarrow> pynum \<Rightarrow> pynum \<Rightarrow> error + pynum" where
  "resolve_memory m self is_head osm redis =
     (case memory self of
        Some given \<Rightarrow> Inr given
      | None \<Rightarrow>
          let left = memory_left m is_head osm redis
          in if py_lt left (float_literal 100000000) \<and> py_lt left (five_percent m)
             then (if get_system_memory m = 0 then Inl ZeroDivisionError
                   else Inl ValueError_insufficient_memory)
             else Inr left)"

definition resolve ::
  "ray_constants \<Rightarrow> machine \<Rightarrow> ResourceSpec \<Rightarrow> bool \<Rightarrow> string option \<Rightarrow> error + ResourceSpec" where
  "resolve c m self is_head node_ip_address =
     (case resolve_resources m self is_head node_ip_address of
        Inl e \<Rightarrow> Inl e
      | Inr res1 \<Rightarrow>
          (let cpus = (case num_cpus self of None \<Rightarrow> PInt (get_num_cpus m) | Some n \<Rightarrow> n) in
           (case resolve_accelerator c m self res1 of
              Inl e \<Rightarrow> Inl e
            | Inr (gpus, res2) \<Rightarrow>
                (let osm = resolve_object_store_memory c m self in
                 (case resolve_redis_max_memory c m self of
                    Inl e \<Rightarrow> Inl e
                  | Inr redis \<Rightarrow>
                      (case resolve_memory m self is_head osm redis of
                         Inl e \<Rightarrow> Inl e
                       | Inr mem \<Rightarrow>
                           (case gpus of
                              None \<Rightarrow> Inl UnboundLocalError_num_gpus
                            | Some g \<Rightarrow>
                                (let spec = \<lparr>num_cpus = Some cpus, num_gpus = Some g,
                                             memory = Some mem, object_store_memory = Some osm,
                                             resources = Some res2, redis_max_memory = Some redis\<rparr>
                                 in if resolved spec then Inr spec
                                    else Inl AssertionError_unresolved))))))))"

subsection \<open>A sample configuration\<close>

text \<open>
  Concrete constants and machines on which the theorems below are instantiated:
  a quantity limit of \<open>100e12\<close>, an object store of 30% of the available memory capped at
  200 GB (2 GiB on a Mac, the shared memory threshold is 10 GB), a redis cap between
  10 MB and 10 GB.
\<close>

definition sample_constants :: ray_constants where
  "sample_constants =
     \<lparr>MAX_RESOURCE_QUANTITY = PFloat 100000000000000,
      DEFAULT_OBJECT_STORE_MEMORY_PROPORTION = float_literal (3 / 10),
      MAC_DEGRADED_PERF_MMAP_SIZE_LIMIT = PInt 2147483648,
      DEFAULT_OBJECT_STORE_MAX_MEMORY_BYTES = PInt 200000000000,
      REQUIRE_SHM_SIZE_THRESHOLD = PInt 10000000000,
      DEFAULT_REDIS_MAX_MEMORY_BYTES = PInt 10000000000,
      REDIS_MINIMUM_MEMORY_BYTES = PInt 10000000,
      RESOURCE_CONSTRAINT_PREFIX = ''accelerator_type:''\<rparr>"

text \<open>A Linux machine with 8 CPUs, 64 GB of memory of which 50 GB are available, 32 GB of
  shared memory, two NVIDIA GPUs under \<open>/proc\<close>, no GPUtil, no visibility list.\<close>

definition linux_machine :: machine where
  "linux_machine =
     \<lparr>get_node_ip_address = ''10.0.0.7'',
      get_num_cpus = 8,
      get_current_accelerator = ''CUDA'',
      get_system_memory = 64000000000,
      estimate_available_memory = 50000000000,
      get_shared_memory_bytes = 32000000000,
      sys_platform = ''linux'',
      get_cuda_visible_devices = None,
      get_xpu_visible_devices = None,
      find_spec_GPUtil = False,
      GPUtil_getGPUs = Inl ''NameError'',
      proc_gpus_isdir = True,
      proc_gpus_listdir = Inr [''0000:01:00.0'', ''0000:02:00.0''],
      read_information = (\<lambda>d. Inr (''Model: '' @ '' Tesla V100-SXM2-16GB'' @ [CHR 0x0A] @ ''IRQ:   24'' @ [CHR 0x0A])),
      WMIC_lines = Inl ''FileNotFoundError'',
      dpctl_get_devices = Dpctl_ImportError\<rparr>"

definition unset_spec :: ResourceSpec where
  "unset_spec =
     \<lparr>num_cpus = None, num_gpus = None, memory = None, object_store_memory = None,
      resources = None, redis_max_memory = None\<rparr>"

text \<open>A Linux machine whose shared memory, not the proportion of the available memory,
  decides the size of the object store: 128 GB of memory, 120 GB available, and
  95% of the shared memory is \<open>30400000009.5\<close> bytes.\<close>

definition shm_bound_machine :: machine where
  "shm_bound_machine =
     linux_machine\<lparr>get_system_memory := 128000000000,
                   estimate_available_memory := 120000000000,
                   get_shared_memory_bytes := 32000000010\<rparr>"

text \<open>A Windows machine without GPUtil on which \<open>WMIC\<close> is not installed.\<close>

definition windows_machine :: machine where
  "windows_machine =
     linux_machine\<lparr>sys_platform := ''win32'', proc_gpus_isdir := False,
                   proc_gpus_listdir := Inl ''FileNotFoundError''\<rparr>"

text \<open>A small machine: 1 GB of memory, half of it available.\<close>

definition small_machine :: machine where
  "small_machine =
     linux_machine\<lparr>get_system_memory := 1000000000, estimate_available_memory := 500000000\<rparr>"

text \<open>A machine that allows the devices 0 and 1 of either family.\<close>

definition two_visible_machine :: machine where
  "two_visible_machine =
     linux_machine\<lparr>get_cuda_visible_devices := Some [''0'', ''1''],
                   get_xpu_visible_devices := Some [''0'', ''1'']\<rparr>"

text \<open>The Linux machine with an accelerator that is neither \<open>CUDA\<close> nor \<open>XPU\<close>.\<close>

definition tpu_machine :: machine where
  "tpu_machine = linux_machine\<lparr>get_current_accelerator := ''TPU''\<rparr>"

text \<open>A head node on which rounding decides the floor check: the object store is capped
  at 95% of the shared memory, a double near \<open>19000000002.85\<close>, and the memory left,
  the double \<open>1638400004915 / 32768\<close>, is below the double \<open>0.05 * system_memory\<close>,
  while the exact difference \<open>50000000.15\<close> equals 5% of the system memory.\<close>

definition rounding_machine :: machine where
  "rounding_machine =
     linux_machine\<lparr>get_system_memory := 1000000003,
                   estimate_available_memory := 100000000000,
                   get_shared_memory_bytes := 20000000003\<rparr>"

text \<open>The Linux machine with one more byte available: 30% of it is not a whole number.\<close>

definition odd_machine :: machine where
  "odd_machine = linux_machine\<lparr>estimate_available_memory := 50000000001\<rparr>"

subsection \<open>Predicates of the statements\<close>

text \<open>A quantity that \<open>to_resource_dict\<close> accepts: a whole number, not negative, at most
  \<open>MAX_RESOURCE_QUANTITY\<close>.\<close>

definition quantity_ok :: "ray_constants \<Rightarrow> pynum \<Rightarrow> bool" where
  "quantity_ok c q =
     (is_integer (value_of q) \<and> 0 \<le> value_of q \<and> value_of q \<le> value_of (MAX_RESOURCE_QUANTITY c))"

text \<open>Every value of the dictionary equals 1 (as \<open>1 == 1.0\<close> in Python).\<close>

definition unit_valued :: "pydict \<Rightarrow> bool" where
  "unit_valued d = list_all (\<lambda>(k, v). value_of v = 1) d"

text \<open>The dictionary has the key, with a value equal to 1.\<close>

definition has_unit :: "pydict \<Rightarrow> string \<Rightarrow> bool" where
  "has_unit d k = (case map_of d k of None \<Rightarrow> False | Some v \<Rightarrow> value_of v = 1)"

section \<open>Properties\<close>

subsection \<open>Arithmetic and dictionaries\<close>

lemma value_of_ieee_mul:
  "value_of (ieee_mul a b) =
     (if is_float a \<or> is_float b then double (py_float a * py_float b)
      else value_of a * value_of b)"
  by (cases a; cases b) simp_all

lemma value_of_ieee_sub:
  "value_of (ieee_sub a b) =
     (if is_float a \<or> is_float b then double (py_float a - py_float b)
      else value_of a - value_of b)"
  by (cases a; cases b) simp_all

lemma value_of_py_mul: "value_of (py_mul a b) = value_of a * value_of b"
  by (cases a; cases b) simp_all

lemma value_of_py_min: "value_of (py_min a b) = min (value_of a) (value_of b)"
  by (simp add: py_min_def py_lt_def min_def)

lemma value_of_py_max: "value_of (py_max a b) = max (value_of a) (value_of b)"
  by (simp add: py_max_def py_gt_def max_def)

lemma unit_valued_constraint_of: "unit_valued (constraint_of c p)"
  by (simp add: unit_valued_def constraint_of_def split: option.splits)

lemma unit_valued_cuda_gpu_types: "unit_valued (cuda_gpu_types c m)"
  by (auto simp: cuda_gpu_types_def get_gpu_types_gputil_def constraints_from_gpu_info_def
      unit_valued_constraint_of unit_valued_def[of "[]"]
      split: sum.splits option.splits if_splits)

lemma get_cuda_info_unit_valued: "get_cuda_info c m n = Inr (g, t) \<Longrightarrow> unit_valued t"
  by (auto simp: get_cuda_info_def Let_def unit_valued_cuda_gpu_types split: if_splits option.splits sum.splits)

lemma get_xpu_info_unit_valued: "get_xpu_info c m n = Inr (g, t) \<Longrightarrow> unit_valued t"
  by (auto simp: get_xpu_info_def Let_def unit_valued_def split: if_splits option.splits sum.splits)

lemma has_unit_update: "has_unit (AList.update k' v d) k = (if k = k' then value_of v = 1 else has_unit d k)"
  by (simp add: has_unit_def update_conv')

lemma has_unit_dict_update: "has_unit d k \<Longrightarrow> unit_valued other \<Longrightarrow> has_unit (dict_update d other) k"
proof (induction other arbitrary: d)
  case Nil
  then show ?case by simp
next
  case (Cons p other)
  obtain k' v where p: "p = (k', v)" by (cases p)
  from Cons.prems(2) p have v: "value_of v = 1" and rest: "unit_valued other"
    by (simp_all add: unit_valued_def)
  from Cons.prems(1) v have "has_unit (AList.update k' v d) k"
    by (simp add: has_unit_update)
  from Cons.IH[OF this rest] show ?case by (simp add: p)
qed

lemma resolve_resources_node:
  "resolve_resources m self is_head ip = Inr d \<Longrightarrow>
   has_unit d (NODE_ID_PREFIX @ (case ip of None \<Rightarrow> get_node_ip_address m | Some a \<Rightarrow> a))"
  by (auto simp: resolve_resources_def Let_def has_unit_update split: if_splits)

lemma resolve_accelerator_node:
  "resolve_accelerator c m self d = Inr (g, d') \<Longrightarrow> has_unit d k \<Longrightarrow> has_unit d' k"
  by (auto simp: resolve_accelerator_def Let_def split: if_splits sum.splits
      intro: has_unit_dict_update get_cuda_info_unit_valued get_xpu_info_unit_valued)

lemma resolve_Inr_iff:
  "resolve c m self is_head ip = Inr spec \<longleftrightarrow>
   (\<exists>res1 g res2 redis mem.
      resolve_resources m self is_head ip = Inr res1 \<and>
      resolve_accelerator c m self res1 = Inr (Some g, res2) \<and>
      resolve_redis_max_memory c m self = Inr redis \<and>
      resolve_memory m self is_head (resolve_object_store_memory c m self) redis = Inr mem \<and>
      spec = \<lparr>num_cpus = Some (case num_cpus self of None \<Rightarrow> PInt (get_num_cpus m) | Some n \<Rightarrow> n),
              num_gpus = Some g, memory = Some mem,
              object_store_memory = Some (resolve_object_store_memory c m self),
              resources = Some res2, redis_max_memory = Some redis\<rparr>)"
  by (auto simp: resolve_def Let_def resolved_def split: sum.splits option.splits prod.splits)

lemma resolve_after_blocks:
  assumes "resolve_resources m self is_head ip = Inr res1"
    and "resolve_accelerator c m self res1 = Inr (gpus, res2)"
    and "resolve_redis_max_memory c m self = Inr redis"
  shows "resolve c m self is_head ip =
     (case resolve_memory m self is_head (resolve_object_store_memory c m self) redis of
        Inl e \<Rightarrow> Inl e
      | Inr mem \<Rightarrow>
          (case gpus of
             None \<Rightarrow> Inl UnboundLocalError_num_gpus
           | Some g \<Rightarrow>
               Inr \<lparr>num_cpus = Some (case num_cpus self of None \<Rightarrow> PInt (get_num_cpus m) | Some n \<Rightarrow> n),
                    num_gpus = Some g, memory = Some mem,
                    object_store_memory = Some (resolve_object_store_memory c m self),
                    resources = Some res2, redis_max_memory = Some redis\<rparr>))"
  using assms by (simp add: resolve_def Let_def resolved_def split: sum.splits option.splits)

subsection \<open>What \<open>resolve\<close> returns\<close>

text \<open>
  Claim C7. Every declaration that \<open>resolve\<close> returns is resolved: each of its six fields
  is set, and its custom resources hold the node id resource \<open>node:<address>\<close>, the
  address being the argument or, without one, the address of the machine, with a value
  equal to 1 (\<open>1.0\<close> as stored by \<open>resolve\<close>; an accelerator type of the same name would
  store \<open>1\<close>, which Python does not tell from \<open>1.0\<close>).
\<close>

theorem resolve_returns_resolved:
  assumes "resolve c m self is_head node_ip_address = Inr spec"
  shows "resolved spec \<and> num_cpus spec \<noteq> None \<and> num_gpus spec \<noteq> None \<and> memory spec \<noteq> None \<and>
         object_store_memory spec \<noteq> None \<and> resources spec \<noteq> None \<and> redis_max_memory spec \<noteq> None \<and>
         (\<exists>d v. resources spec = Some d \<and>
            map_of d (NODE_ID_PREFIX @ (case node_ip_address of None \<Rightarrow> get_node_ip_address m | Some a \<Rightarrow> a)) = Some v \<and>
            value_of v = 1)"
proof -
  from assms obtain res1 g res2 where
    r1: "resolve_resources m self is_head node_ip_address = Inr res1" and
    r2: "resolve_accelerator c m self res1 = Inr (Some g, res2)" and
    sp: "resources spec = Some res2" "resolved spec"
    by (auto simp: resolve_Inr_iff resolved_def)
  have "has_unit res2 (NODE_ID_PREFIX @ (case node_ip_address of None \<Rightarrow> get_node_ip_address m | Some a \<Rightarrow> a))"
    using resolve_accelerator_node[OF r2 resolve_resources_node[OF r1]] .
  then show ?thesis using sp
    by (auto simp: has_unit_def resolved_def split: option.splits)
qed

theorem resolve_returns_resolved_witness:
  "resolve sample_constants linux_machine unset_spec True None =
     Inr \<lparr>num_cpus = Some (PInt 8), num_gpus = Some (PInt 2), memory = Some (PInt 30000000000),
          object_store_memory = Some (PInt 15000000000),
          resources = Some [(''node:10.0.0.7'', PFloat 1), (''node:__internal_head__'', PFloat 1),
                            (''accelerator_type:V100'', PInt 1)],
          redis_max_memory = Some (PInt 5000000000)\<rparr> \<and>
   resolved \<lparr>num_cpus = Some (PInt 8), num_gpus = Some (PInt 2), memory = Some (PInt 30000000000),
          object_store_memory = Some (PInt 15000000000),
          resources = Some [(''node:10.0.0.7'', PFloat 1), (''node:__internal_head__'', PFloat 1),
                            (''accelerator_type:V100'', PInt 1)],
          redis_max_memory = Some (PInt 5000000000)\<rparr>"
proof -
  have run: "resolve sample_constants linux_machine unset_spec True None =
     Inr \<lparr>num_cpus = Some (PInt 8), num_gpus = Some (PInt 2), memory = Some (PInt 30000000000),
          object_store_memory = Some (PInt 15000000000),
          resources = Some [(''node:10.0.0.7'', PFloat 1), (''node:__internal_head__'', PFloat 1),
                            (''accelerator_type:V100'', PInt 1)],
          redis_max_memory = Some (PInt 5000000000)\<rparr>"
    by code_simp
  from resolve_returns_resolved[OF run] run show ?thesis by blast
qed

subsection \<open>What \<open>resolve\<close> raises\<close>

lemma resolve_resources_errors:
  "resolve_resources m self is_head ip = Inl e \<Longrightarrow>
   e = AssertionError_reserved \<or> e = ValueError_reserved_head"
  by (simp add: resolve_resources_def Let_def split: if_splits)

lemma autodetect_num_gpus_errors:
  "autodetect_num_gpus m = Inl e \<Longrightarrow> \<exists>n. e = Propagated n"
  by (auto simp: autodetect_num_gpus_def split: if_splits sum.splits)

lemma get_cuda_info_errors:
  "get_cuda_info c m n = Inl e \<Longrightarrow> e = ValueError_visible_devices \<or> (\<exists>x. e = Propagated x)"
  by (auto simp: get_cuda_info_def Let_def split: if_splits option.splits sum.splits
      dest: autodetect_num_gpus_errors)

lemma get_xpu_info_errors:
  "get_xpu_info c m n = Inl e \<Longrightarrow> e = ValueError_visible_devices \<or> (\<exists>x. e = Propagated x)"
  by (auto simp: get_xpu_info_def Let_def split: if_splits option.splits sum.splits dpctl_result.splits)

lemma resolve_accelerator_errors:
  "resolve_accelerator c m self d = Inl e \<Longrightarrow>
   e = ValueError_visible_devices \<or> (\<exists>x. e = Propagated x)"
  by (auto simp: resolve_accelerator_def Let_def split: if_splits sum.splits
      dest: get_cuda_info_errors get_xpu_info_errors)

lemma resolve_redis_max_memory_errors:
  "resolve_redis_max_memory c m self = Inl e \<Longrightarrow> e = ValueError_redis_minimum"
  by (simp add: resolve_redis_max_memory_def Let_def split: if_splits)

lemma resolve_memory_errors:
  "resolve_memory m self is_head osm redis = Inl e \<Longrightarrow>
   memory self = None \<and> (e = ZeroDivisionError \<or> e = ValueError_insufficient_memory)"
  by (simp add: resolve_memory_def Let_def split: option.splits if_splits)

lemma resolve_Inl_cases:
  assumes "resolve c m self is_head ip = Inl e"
  shows "resolve_resources m self is_head ip = Inl e \<or>
     (\<exists>res1. resolve_resources m self is_head ip = Inr res1 \<and>
        (resolve_accelerator c m self res1 = Inl e \<or>
         (\<exists>gpus res2. resolve_accelerator c m self res1 = Inr (gpus, res2) \<and>
            (resolve_redis_max_memory c m self = Inl e \<or>
             (\<exists>redis. resolve_redis_max_memory c m self = Inr redis \<and>
                (resolve_memory m self is_head (resolve_object_store_memory c m self) redis = Inl e \<or>
                 ((\<exists>mem. resolve_memory m self is_head (resolve_object_store_memory c m self) redis = Inr mem) \<and>
                  gpus = None \<and> e = UnboundLocalError_num_gpus)))))))"
proof (cases "resolve_resources m self is_head ip")
  case (Inl a)
  with assms show ?thesis by (simp add: resolve_def)
next
  case r1: (Inr res1)
  show ?thesis
  proof (cases "resolve_accelerator c m self res1")
    case (Inl a)
    with assms r1 show ?thesis by (simp add: resolve_def Let_def)
  next
    case (Inr acc)
    obtain gpus res2 where acc: "acc = (gpus, res2)" by (cases acc)
    show ?thesis
    proof (cases "resolve_redis_max_memory c m self")
      case (Inl a)
      with assms r1 Inr acc show ?thesis by (simp add: resolve_def Let_def)
    next
      case r3: (Inr redis)
      from assms resolve_after_blocks[OF r1 Inr[unfolded acc] r3]
      show ?thesis using r1 Inr acc r3
        by (auto split: sum.splits option.splits)
    qed
  qed
qed

text \<open>
  Claim C10. With an explicit \<open>memory\<close> the floor check is not run: \<open>resolve\<close> never
  raises the \<open>ValueError\<close> of insufficient memory, however small the value.
\<close>

theorem explicit_memory_never_insufficient:
  assumes "memory self = Some given"
  shows "resolve c m self is_head node_ip_address \<noteq> Inl ValueError_insufficient_memory"
proof
  assume "resolve c m self is_head node_ip_address = Inl ValueError_insufficient_memory"
  from resolve_Inl_cases[OF this] assms show False
    by (auto dest: resolve_resources_errors resolve_accelerator_errors
        resolve_redis_max_memory_errors resolve_memory_errors)
qed


theorem explicit_memory_never_insufficient_witness:
  "memory (unset_spec\<lparr>memory := Some (PInt 1)\<rparr>) = Some (PInt 1) \<and>
   resolve sample_constants linux_machine (unset_spec\<lparr>memory := Some (PInt 1)\<rparr>) False None
     \<noteq> Inl ValueError_insufficient_memory"
proof -
  have given: "memory (unset_spec\<lparr>memory := Some (PInt 1)\<rparr>) = Some (PInt 1)"
    by simp
  from explicit_memory_never_insufficient[OF given] given show ?thesis
    by blast
qed

subsection \<open>Reserved names and visible devices\<close>

lemma has_key_update: "has_key k (AList.update k' v d) = (k = k' \<or> has_key k d)"
  by (auto simp: has_key_def dom_update)

text \<open>
  Claim C2. A custom resource named \<open>CPU\<close>, \<open>GPU\<close>, \<open>memory\<close> or
  \<open>object_store_memory\<close>, or named as the head node resource
  \<open>node:__internal_head__\<close>, makes \<open>resolve\<close> fail: it returns no declaration. The
  four names fail an assertion (\<open>AssertionError\<close>); the head node name alone raises the
  \<open>ValueError\<close> of the reserved resource name. Both are the reserved-name error of the
  specification.
\<close>

theorem reserved_names_rejected:
  assumes "resources self = Some d"
    and "has_key ''CPU'' d \<or> has_key ''GPU'' d \<or> has_key ''memory'' d \<or>
         has_key ''object_store_memory'' d \<or> has_key HEAD_NODE_RESOURCE_NAME d"
  shows "resolve c m self is_head node_ip_address =
           Inl (if has_key ''CPU'' d \<or> has_key ''GPU'' d \<or> has_key ''memory'' d \<or>
                   has_key ''object_store_memory'' d
                then AssertionError_reserved else ValueError_reserved_head)"
proof -
  have "resolve_resources m self is_head node_ip_address =
           Inl (if has_key ''CPU'' d \<or> has_key ''GPU'' d \<or> has_key ''memory'' d \<or>
                   has_key ''object_store_memory'' d
                then AssertionError_reserved else ValueError_reserved_head)"
    using assms by (auto simp: resolve_resources_def Let_def has_key_update)
  then show ?thesis by (simp add: resolve_def)
qed

theorem reserved_names_rejected_witness:
  "resolve sample_constants linux_machine (unset_spec\<lparr>resources := Some [(''GPU'', PInt 1)]\<rparr>) False None
     = Inl AssertionError_reserved \<and>
   resolve sample_constants linux_machine
     (unset_spec\<lparr>resources := Some [(''node:__internal_head__'', PFloat 1)]\<rparr>) True None
     = Inl ValueError_reserved_head"
proof -
  have a: "resources (unset_spec\<lparr>resources := Some [(''GPU'', PInt 1)]\<rparr>) = Some [(''GPU'', PInt 1)]"
    by simp
  have b: "resources (unset_spec\<lparr>resources := Some [(''node:__internal_head__'', PFloat 1)]\<rparr>)
             = Some [(''node:__internal_head__'', PFloat 1)]"
    by simp
  have ka: "has_key ''GPU'' [(''GPU'', PInt 1)]"
    by (simp add: has_key_def)
  have kb: "has_key HEAD_NODE_RESOURCE_NAME [(''node:__internal_head__'', PFloat 1)]"
    by (simp add: has_key_def HEAD_NODE_RESOURCE_NAME_def NODE_ID_PREFIX_def)
  have nb: "\<not> (has_key ''CPU'' [(''node:__internal_head__'', PFloat 1)] \<or>
                has_key ''GPU'' [(''node:__internal_head__'', PFloat 1)] \<or>
                has_key ''memory'' [(''node:__internal_head__'', PFloat 1)] \<or>
                has_key ''object_store_memory'' [(''node:__internal_head__'', PFloat 1)])"
    by (simp add: has_key_def)
  from reserved_names_rejected[OF a, of sample_constants linux_machine False None] ka
  have one: "resolve sample_constants linux_machine (unset_spec\<lparr>resources := Some [(''GPU'', PInt 1)]\<rparr>) False None
     = Inl AssertionError_reserved"
    by simp
  from reserved_names_rejected[OF b, of sample_constants linux_machine True None] kb nb
  have two: "resolve sample_constants linux_machine
     (unset_spec\<lparr>resources := Some [(''node:__internal_head__'', PFloat 1)]\<rparr>) True None
     = Inl ValueError_reserved_head"
    by simp
  from one two show ?thesis by simp
qed

text \<open>
  Claim C6. For the CUDA and for the XPU family: with a requested count and a list of
  visible devices, detection raises the \<open>ValueError\<close> of the visible devices exactly
  when the count exceeds the length of the list; otherwise it returns the requested
  count (with the type constraints of the family).
\<close>

theorem requested_count_against_visible_devices:
  "(get_cuda_visible_devices m = Some ids \<longrightarrow>
      (if of_nat (length ids) < value_of n
       then get_cuda_info c m (Some n) = Inl ValueError_visible_devices
       else get_cuda_info c m (Some n) = Inr (n, cuda_gpu_types c m))) \<and>
   (get_xpu_visible_devices m = Some ids \<longrightarrow>
      (if of_nat (length ids) < value_of n
       then get_xpu_info c m (Some n) = Inl ValueError_visible_devices
       else get_xpu_info c m (Some n) = Inr (n, [(RESOURCE_CONSTRAINT_PREFIX c @ ''xpu'', PInt 1)])))"
  by (simp add: get_cuda_info_def get_xpu_info_def Let_def py_gt_def)

theorem requested_count_against_visible_devices_witness:
  "get_cuda_info sample_constants two_visible_machine (Some (PInt 4)) = Inl ValueError_visible_devices \<and>
   get_xpu_info sample_constants two_visible_machine (Some (PInt 4)) = Inl ValueError_visible_devices \<and>
   get_cuda_info sample_constants two_visible_machine (Some (PInt 2))
     = Inr (PInt 2, cuda_gpu_types sample_constants two_visible_machine) \<and>
   get_xpu_info sample_constants two_visible_machine (Some (PInt 2))
     = Inr (PInt 2, [(''accelerator_type:xpu'', PInt 1)])"
proof -
  have cu: "get_cuda_visible_devices two_visible_machine = Some [''0'', ''1'']"
    by (simp add: two_visible_machine_def)
  have xu: "get_xpu_visible_devices two_visible_machine = Some [''0'', ''1'']"
    by (simp add: two_visible_machine_def)
  have pre: "RESOURCE_CONSTRAINT_PREFIX sample_constants = ''accelerator_type:''"
    by (simp add: sample_constants_def)
  from requested_count_against_visible_devices[of two_visible_machine "[''0'', ''1'']" "PInt 4" sample_constants]
    requested_count_against_visible_devices[of two_visible_machine "[''0'', ''1'']" "PInt 2" sample_constants]
    cu xu pre
  show ?thesis by simp
qed

subsection \<open>Memory for tasks and actors\<close>

lemma double_100e6: "double 100000000 = 100000000"
  by code_simp

lemma resolve_memory_unset:
  assumes "memory self = None" and "get_system_memory m \<noteq> 0"
  shows "resolve_memory m self is_head osm redis =
           (if value_of (memory_left m is_head osm redis) < 100000000 \<and>
               value_of (memory_left m is_head osm redis) < value_of (five_percent m)
            then Inl ValueError_insufficient_memory
            else Inr (memory_left m is_head osm redis))"
  using assms
  by (simp add: resolve_memory_def Let_def py_lt_def float_literal_def double_100e6)

text \<open>
  Claim C1. With \<open>memory\<close> unset, \<open>resolve\<close> computes the memory left as the available
  memory minus the object store memory, minus the redis cap on the head node (exactly
  when these are \<open>int\<close>s, in double arithmetic when one is a \<open>float\<close>), and it raises
  the \<open>ValueError\<close> of insufficient memory if and only if the blocks before have
  returned and this value is below both \<open>100e6\<close> and \<open>0.05 * system_memory\<close>, the
  double product. A declaration returned holds the value computed, which is then not
  below both floors; and a value that is not below both floors, such as one below
  \<open>100e6\<close> that reaches 5% of the system memory, makes the memory block return, and
  \<open>resolve\<close> with it when an accelerator branch has assigned \<open>num_gpus\<close>. The system
  memory is not zero (the message of the error divides by it).
\<close>

theorem default_memory_floor:
  assumes unset: "memory self = None"
    and sys: "get_system_memory m \<noteq> 0"
    and osm: "osm = resolve_object_store_memory c m self"
  shows "(resolve c m self is_head node_ip_address = Inl ValueError_insufficient_memory \<longleftrightarrow>
            (\<exists>res1 acc redis.
               resolve_resources m self is_head node_ip_address = Inr res1 \<and>
               resolve_accelerator c m self res1 = Inr acc \<and>
               resolve_redis_max_memory c m self = Inr redis \<and>
               value_of (memory_left m is_head osm redis) < 100000000 \<and>
               value_of (memory_left m is_head osm redis) < value_of (five_percent m))) \<and>
         (\<forall>spec. resolve c m self is_head node_ip_address = Inr spec \<longrightarrow>
            (\<exists>redis. redis_max_memory spec = Some redis \<and>
               memory spec = Some (memory_left m is_head osm redis) \<and>
               \<not> (value_of (memory_left m is_head osm redis) < 100000000 \<and>
                  value_of (memory_left m is_head osm redis) < value_of (five_percent m)))) \<and>
         (\<forall>res1 g res2 redis.
            resolve_resources m self is_head node_ip_address = Inr res1 \<and>
            resolve_accelerator c m self res1 = Inr (Some g, res2) \<and>
            resolve_redis_max_memory c m self = Inr redis \<and>
            \<not> (value_of (memory_left m is_head osm redis) < 100000000 \<and>
               value_of (memory_left m is_head osm redis) < value_of (five_percent m)) \<longrightarrow>
            (\<exists>spec. resolve c m self is_head node_ip_address = Inr spec \<and>
               memory spec = Some (memory_left m is_head osm redis))) \<and>
         value_of (five_percent m) = double (double (5 / 100) * double (of_int (get_system_memory m))) \<and>
         (\<forall>a b. memory_left m is_head (PInt a) (PInt b) =
            PInt (estimate_available_memory m - a - (if is_head then b else 0))) \<and>
         (\<forall>x redis. value_of (memory_left m is_head (PFloat x) redis) =
            double (double (double (of_int (estimate_available_memory m)) - x)
                    - py_float (if is_head then redis else PInt 0)))"
proof (intro conjI allI impI)
  let ?run = "resolve c m self is_head node_ip_address"
  let ?below = "\<lambda>redis. value_of (memory_left m is_head osm redis) < 100000000 \<and>
                        value_of (memory_left m is_head osm redis) < value_of (five_percent m)"
  note mem = resolve_memory_unset[OF unset sys, of is_head osm]
  show "?run = Inl ValueError_insufficient_memory \<longleftrightarrow>
            (\<exists>res1 acc redis.
               resolve_resources m self is_head node_ip_address = Inr res1 \<and>
               resolve_accelerator c m self res1 = Inr acc \<and>
               resolve_redis_max_memory c m self = Inr redis \<and> ?below redis)"
  proof
    assume raised: "?run = Inl ValueError_insufficient_memory"
    from resolve_Inl_cases[OF raised]
    show "\<exists>res1 acc redis.
               resolve_resources m self is_head node_ip_address = Inr res1 \<and>
               resolve_accelerator c m self res1 = Inr acc \<and>
               resolve_redis_max_memory c m self = Inr redis \<and> ?below redis"
      by (auto simp: mem osm[symmetric] dest: resolve_resources_errors resolve_accelerator_errors
          resolve_redis_max_memory_errors split: if_splits)
  next
    assume "\<exists>res1 acc redis.
               resolve_resources m self is_head node_ip_address = Inr res1 \<and>
               resolve_accelerator c m self res1 = Inr acc \<and>
               resolve_redis_max_memory c m self = Inr redis \<and> ?below redis"
    then obtain res1 acc redis where
      r1: "resolve_resources m self is_head node_ip_address = Inr res1" and
      r2: "resolve_accelerator c m self res1 = Inr acc" and
      r3: "resolve_redis_max_memory c m self = Inr redis" and
      below: "?below redis"
      by blast
    obtain gpus res2 where acc: "acc = (gpus, res2)" by (cases acc)
    from resolve_after_blocks[OF r1 r2[unfolded acc] r3] below
    show "?run = Inl ValueError_insufficient_memory"
      by (simp add: mem osm[symmetric])
  qed
next
  fix spec
  assume "resolve c m self is_head node_ip_address = Inr spec"
  then obtain redis mem where
    r3: "redis_max_memory spec = Some redis" and
    m1: "memory spec = Some mem" and
    m2: "resolve_memory m self is_head osm redis = Inr mem"
    by (auto simp: resolve_Inr_iff osm)
  from m2 have "mem = memory_left m is_head osm redis \<and>
      \<not> (value_of (memory_left m is_head osm redis) < 100000000 \<and>
         value_of (memory_left m is_head osm redis) < value_of (five_percent m))"
    by (simp add: resolve_memory_unset[OF unset sys] split: if_splits)
  with r3 m1
  show "\<exists>redis. redis_max_memory spec = Some redis \<and>
               memory spec = Some (memory_left m is_head osm redis) \<and>
               \<not> (value_of (memory_left m is_head osm redis) < 100000000 \<and>
                  value_of (memory_left m is_head osm redis) < value_of (five_percent m))"
    by blast
next
  fix res1 g res2 redis
  assume blocks: "resolve_resources m self is_head node_ip_address = Inr res1 \<and>
            resolve_accelerator c m self res1 = Inr (Some g, res2) \<and>
            resolve_redis_max_memory c m self = Inr redis \<and>
            \<not> (value_of (memory_left m is_head osm redis) < 100000000 \<and>
               value_of (memory_left m is_head osm redis) < value_of (five_percent m))"
  then have r1: "resolve_resources m self is_head node_ip_address = Inr res1"
    and r2: "resolve_accelerator c m self res1 = Inr (Some g, res2)"
    and r3: "resolve_redis_max_memory c m self = Inr redis"
    and above: "\<not> (value_of (memory_left m is_head osm redis) < 100000000 \<and>
               value_of (memory_left m is_head osm redis) < value_of (five_percent m))"
    by simp_all
  from resolve_after_blocks[OF r1 r2 r3] above
  show "\<exists>spec. resolve c m self is_head node_ip_address = Inr spec \<and>
               memory spec = Some (memory_left m is_head osm redis)"
    by (simp add: resolve_memory_unset[OF unset sys] osm[symmetric])
next
  show "value_of (five_percent m) = double (double (5 / 100) * double (of_int (get_system_memory m)))"
    by (simp add: five_percent_def float_literal_def)
next
  fix a b
  show "memory_left m is_head (PInt a) (PInt b) =
            PInt (estimate_available_memory m - a - (if is_head then b else 0))"
    by (simp add: memory_left_def)
next
  fix x redis
  show "value_of (memory_left m is_head (PFloat x) redis) =
            double (double (double (of_int (estimate_available_memory m)) - x)
                    - py_float (if is_head then redis else PInt 0))"
    by (simp add: memory_left_def value_of_ieee_sub)
qed

theorem default_memory_floor_witness:
  "resolve sample_constants linux_machine
     (unset_spec\<lparr>object_store_memory := Some (PInt 49950000000)\<rparr>) False None
     = Inl ValueError_insufficient_memory \<and>
   resolve sample_constants rounding_machine
     (unset_spec\<lparr>redis_max_memory := Some (PInt 80949999997)\<rparr>) True None
     = Inl ValueError_insufficient_memory \<and>
   (\<exists>spec. resolve sample_constants small_machine
      (unset_spec\<lparr>object_store_memory := Some (PInt 440000000)\<rparr>) False None = Inr spec \<and>
      memory spec = Some (PInt 60000000))"
proof -
  let ?a = "unset_spec\<lparr>object_store_memory := Some (PInt 49950000000)\<rparr>"
  let ?b = "unset_spec\<lparr>object_store_memory := Some (PInt 440000000)\<rparr>"
  let ?r = "unset_spec\<lparr>redis_max_memory := Some (PInt 80949999997)\<rparr>"
  let ?res = "[(''node:10.0.0.7'', PFloat 1)]"
  let ?head = "[(''node:10.0.0.7'', PFloat 1), (''node:__internal_head__'', PFloat 1)]"
  have ua: "memory ?a = None" and ub: "memory ?b = None" and ur: "memory ?r = None"
    by (simp_all add: unset_spec_def)
  have sa: "get_system_memory linux_machine \<noteq> 0"
    and sb: "get_system_memory small_machine \<noteq> 0"
    and sr: "get_system_memory rounding_machine \<noteq> 0"
    by code_simp+
  have a1: "resolve_resources linux_machine ?a False None = Inr ?res"
    by code_simp
  have a2: "resolve_accelerator sample_constants linux_machine ?a ?res
              = Inr (Some (PInt 2), ?res @ [(''accelerator_type:V100'', PInt 1)])"
    by code_simp
  have a3: "resolve_redis_max_memory sample_constants linux_machine ?a = Inr (PInt 5000000000)"
    by code_simp
  have a4: "value_of (memory_left linux_machine False
               (resolve_object_store_memory sample_constants linux_machine ?a) (PInt 5000000000))
            < 100000000"
    by code_simp
  have a5: "value_of (memory_left linux_machine False
               (resolve_object_store_memory sample_constants linux_machine ?a) (PInt 5000000000))
            < value_of (five_percent linux_machine)"
    by code_simp
  have r1: "resolve_resources rounding_machine ?r True None = Inr ?head"
    by code_simp
  have r2: "resolve_accelerator sample_constants rounding_machine ?r ?head
              = Inr (Some (PInt 2), ?head @ [(''accelerator_type:V100'', PInt 1)])"
    by code_simp
  have r3: "resolve_redis_max_memory sample_constants rounding_machine ?r = Inr (PInt 80949999997)"
    by code_simp
  have r4: "value_of (memory_left rounding_machine True
               (resolve_object_store_memory sample_constants rounding_machine ?r) (PInt 80949999997))
            < 100000000"
    by code_simp
  have r5: "value_of (memory_left rounding_machine True
               (resolve_object_store_memory sample_constants rounding_machine ?r) (PInt 80949999997))
            < value_of (five_percent rounding_machine)"
    by code_simp
  have b1: "resolve_resources small_machine ?b False None = Inr ?res"
    by code_simp
  have b2: "resolve_accelerator sample_constants small_machine ?b ?res
              = Inr (Some (PInt 2), ?res @ [(''accelerator_type:V100'', PInt 1)])"
    by code_simp
  have b3: "resolve_redis_max_memory sample_constants small_machine ?b = Inr (PInt 50000000)"
    by code_simp
  have b4: "\<not> (value_of (memory_left small_machine False
               (resolve_object_store_memory sample_constants small_machine ?b) (PInt 50000000))
            < value_of (five_percent small_machine))"
    by code_simp
  have b5: "memory_left small_machine False
               (resolve_object_store_memory sample_constants small_machine ?b) (PInt 50000000)
            = PInt 60000000"
    by code_simp
  note ta = default_memory_floor[OF ua sa refl, where c = sample_constants and is_head = False
      and node_ip_address = None]
  note tr = default_memory_floor[OF ur sr refl, where c = sample_constants and is_head = True
      and node_ip_address = None]
  note tb = default_memory_floor[OF ub sb refl, where c = sample_constants and is_head = False
      and node_ip_address = None]
  from ta a1 a2 a3 a4 a5
  have one: "resolve sample_constants linux_machine ?a False None = Inl ValueError_insufficient_memory"
    by blast
  from tr r1 r2 r3 r4 r5
  have two: "resolve sample_constants rounding_machine ?r True None = Inl ValueError_insufficient_memory"
    by blast
  from tb b1 b2 b3 b4
  have "\<exists>spec. resolve sample_constants small_machine ?b False None = Inr spec \<and>
          memory spec = Some (memory_left small_machine False
               (resolve_object_store_memory sample_constants small_machine ?b) (PInt 50000000))"
    by blast
  then have three: "\<exists>spec. resolve sample_constants small_machine ?b False None = Inr spec \<and>
          memory spec = Some (PInt 60000000)"
    by (simp only: b5)
  from one two three show ?thesis by blast
qed

subsection \<open>Object store memory\<close>

lemma trunc_of_int: "trunc (of_int i) = i"
  by (simp add: trunc_def)

lemma py_int_trunc: "py_int x = trunc (value_of x)"
  by (cases x) (simp_all add: trunc_of_int)

lemma resolve_resources_object_store:
  "resolve_resources m (self\<lparr>object_store_memory := v\<rparr>) is_head ip = resolve_resources m self is_head ip"
  by (simp add: resolve_resources_def)

lemma resolve_accelerator_object_store:
  "resolve_accelerator c m (self\<lparr>object_store_memory := v\<rparr>) d = resolve_accelerator c m self d"
  by (simp add: resolve_accelerator_def Let_def)

lemma resolve_redis_object_store:
  "resolve_redis_max_memory c m (self\<lparr>object_store_memory := v\<rparr>) = resolve_redis_max_memory c m self"
  by (simp add: resolve_redis_max_memory_def)

lemma resolve_memory_object_store:
  "resolve_memory m (self\<lparr>object_store_memory := v\<rparr>) is_head osm redis = resolve_memory m self is_head osm redis"
  by (simp add: resolve_memory_def)

lemma resolve_object_store_given:
  "resolve_object_store_memory c m (self\<lparr>object_store_memory := Some v\<rparr>) = v"
  by (simp add: resolve_object_store_memory_def)

text \<open>
  Claim C4, as the code has it. With \<open>object_store_memory\<close> unset, the object store
  gets \<open>int(avail_memory * DEFAULT_OBJECT_STORE_MEMORY_PROPORTION)\<close>, the product
  truncated to a whole number, at most \<open>MAC_DEGRADED_PERF_MMAP_SIZE_LIMIT\<close> on
  \<open>darwin\<close>, and then at most the maximum cap: on \<open>linux\<close> and \<open>linux2\<close> the smaller of
  \<open>DEFAULT_OBJECT_STORE_MAX_MEMORY_BYTES\<close> and the larger of
  \<open>get_shared_memory_bytes() * 0.95\<close> (the double product) and
  \<open>REQUIRE_SHM_SIZE_THRESHOLD\<close>, elsewhere \<open>DEFAULT_OBJECT_STORE_MAX_MEMORY_BYTES\<close>.
  A declaration that \<open>resolve\<close> returns holds this value, and reducing to the cap raises
  nothing: \<open>resolve\<close> gives what it gives for a declaration that states the value.
\<close>

theorem default_object_store_memory:
  assumes unset: "object_store_memory self = None"
    and proportional:
      "proportional = rat_of_int (py_int (ieee_mul (PInt (estimate_available_memory m))
                                            (DEFAULT_OBJECT_STORE_MEMORY_PROPORTION c)))"
    and shm_avail:
      "shm_avail = double (double (of_int (get_shared_memory_bytes m)) * double (95 / 100))"
  shows "value_of (resolve_object_store_memory c m self) =
           min (if sys_platform m = ''darwin''
                then min proportional (value_of (MAC_DEGRADED_PERF_MMAP_SIZE_LIMIT c))
                else proportional)
               (if sys_platform m = ''linux'' \<or> sys_platform m = ''linux2''
                then min (max shm_avail (value_of (REQUIRE_SHM_SIZE_THRESHOLD c)))
                         (value_of (DEFAULT_OBJECT_STORE_MAX_MEMORY_BYTES c))
                else value_of (DEFAULT_OBJECT_STORE_MAX_MEMORY_BYTES c)) \<and>
         (\<forall>p. DEFAULT_OBJECT_STORE_MEMORY_PROPORTION c = PFloat p \<longrightarrow>
            proportional =
              of_int (trunc (double (double (of_int (estimate_available_memory m)) * p)))) \<and>
         (\<forall>p. DEFAULT_OBJECT_STORE_MEMORY_PROPORTION c = PInt p \<longrightarrow>
            proportional = of_int (estimate_available_memory m * p)) \<and>
         (\<forall>spec. resolve c m self is_head node_ip_address = Inr spec
            \<longrightarrow> object_store_memory spec = Some (resolve_object_store_memory c m self)) \<and>
         resolve c m self is_head node_ip_address =
           resolve c m (self\<lparr>object_store_memory := Some (resolve_object_store_memory c m self)\<rparr>)
             is_head node_ip_address"
proof (intro conjI)
  show "value_of (resolve_object_store_memory c m self) =
           min (if sys_platform m = ''darwin''
                then min proportional (value_of (MAC_DEGRADED_PERF_MMAP_SIZE_LIMIT c))
                else proportional)
               (if sys_platform m = ''linux'' \<or> sys_platform m = ''linux2''
                then min (max shm_avail (value_of (REQUIRE_SHM_SIZE_THRESHOLD c)))
                         (value_of (DEFAULT_OBJECT_STORE_MAX_MEMORY_BYTES c))
                else value_of (DEFAULT_OBJECT_STORE_MAX_MEMORY_BYTES c))"
    using unset
    by (simp add: resolve_object_store_memory_def Let_def py_gt_def value_of_py_min
        value_of_py_max value_of_ieee_mul float_literal_def proportional shm_avail
        min_def max_def)
next
  show "\<forall>p. DEFAULT_OBJECT_STORE_MEMORY_PROPORTION c = PFloat p \<longrightarrow>
            proportional =
              of_int (trunc (double (double (of_int (estimate_available_memory m)) * p)))"
    by (simp add: proportional)
next
  show "\<forall>p. DEFAULT_OBJECT_STORE_MEMORY_PROPORTION c = PInt p \<longrightarrow>
            proportional = of_int (estimate_available_memory m * p)"
    by (simp add: proportional)
next
  show "\<forall>spec. resolve c m self is_head node_ip_address = Inr spec
            \<longrightarrow> object_store_memory spec = Some (resolve_object_store_memory c m self)"
    by (auto simp: resolve_Inr_iff)
next
  show "resolve c m self is_head node_ip_address =
           resolve c m (self\<lparr>object_store_memory := Some (resolve_object_store_memory c m self)\<rparr>)
             is_head node_ip_address"
    by (simp add: resolve_def resolve_resources_object_store resolve_accelerator_object_store
        resolve_redis_object_store resolve_memory_object_store resolve_object_store_given
        split del: if_split cong: sum.case_cong option.case_cong)
qed

theorem default_object_store_memory_witness:
  "value_of (resolve_object_store_memory sample_constants shm_bound_machine unset_spec) = 60800000019 / 2 \<and>
   value_of (resolve_object_store_memory sample_constants rounding_machine unset_spec)
     = 2490368000373555 / 131072 \<and>
   (\<exists>spec. resolve sample_constants shm_bound_machine unset_spec True None = Inr spec \<and>
      object_store_memory spec = Some (PFloat (60800000019 / 2)))"
proof -
  have unset: "object_store_memory unset_spec = None"
    by (simp add: unset_spec_def)
  have linux: "sys_platform shm_bound_machine = ''linux''" "sys_platform rounding_machine = ''linux''"
    by code_simp+
  have capped: "resolve_object_store_memory sample_constants shm_bound_machine unset_spec
                  = PFloat (60800000019 / 2)"
    by code_simp
  have run: "resolve sample_constants shm_bound_machine unset_spec True None =
     Inr \<lparr>num_cpus = Some (PInt 8), num_gpus = Some (PInt 2),
          memory = Some (PFloat (159199999981 / 2)),
          object_store_memory = Some (PFloat (60800000019 / 2)),
          resources = Some [(''node:10.0.0.7'', PFloat 1), (''node:__internal_head__'', PFloat 1),
                            (''accelerator_type:V100'', PInt 1)],
          redis_max_memory = Some (PInt 10000000000)\<rparr>"
    by code_simp
  have p: "rat_of_int (py_int (ieee_mul (PInt (estimate_available_memory rounding_machine))
             (DEFAULT_OBJECT_STORE_MEMORY_PROPORTION sample_constants))) = 30000000000"
    by code_simp
  have s: "double (double (of_int (get_shared_memory_bytes rounding_machine)) * double (95 / 100))
             = 2490368000373555 / 131072"
    by code_simp
  have bounds: "value_of (REQUIRE_SHM_SIZE_THRESHOLD sample_constants) = 10000000000"
    "value_of (DEFAULT_OBJECT_STORE_MAX_MEMORY_BYTES sample_constants) = 200000000000"
    by (simp_all add: sample_constants_def)
  note bound = default_object_store_memory[OF unset refl refl,
      where c = sample_constants and m = shm_bound_machine and is_head = True
        and node_ip_address = None]
  note rounded = default_object_store_memory[OF unset refl refl,
      where c = sample_constants and m = rounding_machine and is_head = True
        and node_ip_address = None]
  from bound
  have "\<forall>spec. resolve sample_constants shm_bound_machine unset_spec True None = Inr spec
          \<longrightarrow> object_store_memory spec
                = Some (resolve_object_store_memory sample_constants shm_bound_machine unset_spec)"
    by blast
  with run capped
  have one: "\<exists>spec. resolve sample_constants shm_bound_machine unset_spec True None = Inr spec \<and>
      object_store_memory spec = Some (PFloat (60800000019 / 2))"
    by simp
  from rounded
  have "value_of (resolve_object_store_memory sample_constants rounding_machine unset_spec) =
           min (if sys_platform rounding_machine = ''darwin''
                then min (rat_of_int (py_int (ieee_mul (PInt (estimate_available_memory rounding_machine))
                            (DEFAULT_OBJECT_STORE_MEMORY_PROPORTION sample_constants))))
                         (value_of (MAC_DEGRADED_PERF_MMAP_SIZE_LIMIT sample_constants))
                else rat_of_int (py_int (ieee_mul (PInt (estimate_available_memory rounding_machine))
                            (DEFAULT_OBJECT_STORE_MEMORY_PROPORTION sample_constants))))
               (if sys_platform rounding_machine = ''linux'' \<or> sys_platform rounding_machine = ''linux2''
                then min (max (double (double (of_int (get_shared_memory_bytes rounding_machine))
                                       * double (95 / 100)))
                              (value_of (REQUIRE_SHM_SIZE_THRESHOLD sample_constants)))
                         (value_of (DEFAULT_OBJECT_STORE_MAX_MEMORY_BYTES sample_constants))
                else value_of (DEFAULT_OBJECT_STORE_MAX_MEMORY_BYTES sample_constants))"
    by (rule conjunct1)
  then have two: "value_of (resolve_object_store_memory sample_constants rounding_machine unset_spec)
     = 2490368000373555 / 131072"
    by (simp only: p s bounds linux) simp
  from capped have zero:
    "value_of (resolve_object_store_memory sample_constants shm_bound_machine unset_spec) = 60800000019 / 2"
    by simp
  show ?thesis
    by (intro conjI zero two one)
qed

text \<open>
  The default is the truncated product, not the product: with 50000000001 bytes
  available, \<open>avail_memory * 0.3\<close> is the double \<open>3932160000078643 / 262144\<close>, about
  \<open>15000000000.3\<close>, below the cap of 95% of the shared memory on a machine that is not a
  Mac, and the object store gets 15000000000 bytes.
\<close>

theorem object_store_default_truncated:
  "object_store_memory unset_spec = None \<and>
   sys_platform odd_machine = ''linux'' \<and>
   value_of (ieee_mul (PInt (estimate_available_memory odd_machine))
               (DEFAULT_OBJECT_STORE_MEMORY_PROPORTION sample_constants))
     = 3932160000078643 / 262144 \<and>
   value_of (ieee_mul (PInt (get_shared_memory_bytes odd_machine)) (float_literal (95 / 100)))
     = 30400000000 \<and>
   resolve_object_store_memory sample_constants odd_machine unset_spec = PInt 15000000000 \<and>
   resolve sample_constants odd_machine unset_spec False None =
     Inr \<lparr>num_cpus = Some (PInt 8), num_gpus = Some (PInt 2), memory = Some (PInt 35000000001),
          object_store_memory = Some (PInt 15000000000),
          resources = Some [(''node:10.0.0.7'', PFloat 1), (''accelerator_type:V100'', PInt 1)],
          redis_max_memory = Some (PInt 5000000000)\<rparr>"
proof -
  have a: "object_store_memory unset_spec = None"
    by (simp add: unset_spec_def)
  have b: "sys_platform odd_machine = ''linux''"
    by code_simp
  have c: "value_of (ieee_mul (PInt (estimate_available_memory odd_machine))
               (DEFAULT_OBJECT_STORE_MEMORY_PROPORTION sample_constants))
     = 3932160000078643 / 262144"
    by code_simp
  have d: "value_of (ieee_mul (PInt (get_shared_memory_bytes odd_machine)) (float_literal (95 / 100)))
     = 30400000000"
    by code_simp
  have e: "resolve_object_store_memory sample_constants odd_machine unset_spec = PInt 15000000000"
    by code_simp
  have f: "resolve sample_constants odd_machine unset_spec False None =
     Inr \<lparr>num_cpus = Some (PInt 8), num_gpus = Some (PInt 2), memory = Some (PInt 35000000001),
          object_store_memory = Some (PInt 15000000000),
          resources = Some [(''node:10.0.0.7'', PFloat 1), (''accelerator_type:V100'', PInt 1)],
          redis_max_memory = Some (PInt 5000000000)\<rparr>"
    by code_simp
  show ?thesis
    by (intro conjI a b c d e f)
qed

subsection \<open>The redis cap\<close>

text \<open>
  Claim C5, as the code has it. Unset, the redis cap is the smaller of
  \<open>DEFAULT_REDIS_MAX_MEMORY_BYTES\<close> and the larger of 10% of the available memory
  (truncated by \<open>int\<close>) and \<open>REDIS_MINIMUM_MEMORY_BYTES\<close>. When the cap, default or
  given, is below \<open>REDIS_MINIMUM_MEMORY_BYTES\<close>, \<open>resolve\<close> returns no declaration; it
  raises the \<open>ValueError\<close> of the redis minimum when the blocks before the check (the
  reserved names, the accelerator detection) have not raised, whatever \<open>num_cpus\<close>,
  \<open>memory\<close> and \<open>object_store_memory\<close> are, and it raises that error for no other
  reason. A declaration returned holds the cap.
\<close>

theorem redis_cap_minimum:
  assumes cap: "cap = (case redis_max_memory self of
                         Some given \<Rightarrow> given
                       | None \<Rightarrow> default_redis_max_memory c m)"
  shows "value_of (default_redis_max_memory c m) =
           min (value_of (DEFAULT_REDIS_MAX_MEMORY_BYTES c))
               (max (of_int (trunc (of_int (estimate_available_memory m) * (1 / 10))))
                    (value_of (REDIS_MINIMUM_MEMORY_BYTES c))) \<and>
         (value_of cap < value_of (REDIS_MINIMUM_MEMORY_BYTES c)
            \<longrightarrow> (\<forall>spec. resolve c m self is_head node_ip_address \<noteq> Inr spec)) \<and>
         (value_of cap < value_of (REDIS_MINIMUM_MEMORY_BYTES c) \<and>
          resolve_resources m self is_head node_ip_address = Inr res1 \<and>
          resolve_accelerator c m self res1 = Inr acc
            \<longrightarrow> resolve c m self is_head node_ip_address = Inl ValueError_redis_minimum) \<and>
         (resolve c m self is_head node_ip_address = Inl ValueError_redis_minimum
            \<longrightarrow> value_of cap < value_of (REDIS_MINIMUM_MEMORY_BYTES c)) \<and>
         (\<forall>spec. resolve c m self is_head node_ip_address = Inr spec
            \<longrightarrow> redis_max_memory spec = Some cap)"
proof -
  have redis: "resolve_redis_max_memory c m self =
                 (if value_of cap < value_of (REDIS_MINIMUM_MEMORY_BYTES c)
                  then Inl ValueError_redis_minimum else Inr cap)"
    by (simp add: resolve_redis_max_memory_def Let_def py_lt_def cap)
  have dflt: "value_of (default_redis_max_memory c m) =
           min (value_of (DEFAULT_REDIS_MAX_MEMORY_BYTES c))
               (max (of_int (trunc (of_int (estimate_available_memory m) * (1 / 10))))
                    (value_of (REDIS_MINIMUM_MEMORY_BYTES c)))"
    by (simp add: default_redis_max_memory_def value_of_py_min value_of_py_max
        value_of_py_mul py_int_trunc)
  have never: "resolve c m self is_head node_ip_address \<noteq> Inr spec"
    if "value_of cap < value_of (REDIS_MINIMUM_MEMORY_BYTES c)" for spec
    using that by (simp add: resolve_Inr_iff redis)
  have raised: "resolve c m self is_head node_ip_address = Inl ValueError_redis_minimum"
    if "value_of cap < value_of (REDIS_MINIMUM_MEMORY_BYTES c)"
      and "resolve_resources m self is_head node_ip_address = Inr res1"
      and "resolve_accelerator c m self res1 = Inr acc"
    using that by (simp add: resolve_def Let_def redis split: prod.splits)
  have only: "value_of cap < value_of (REDIS_MINIMUM_MEMORY_BYTES c)"
    if "resolve c m self is_head node_ip_address = Inl ValueError_redis_minimum"
    using resolve_Inl_cases[OF that]
    by (auto simp: redis dest: resolve_resources_errors resolve_accelerator_errors
        resolve_memory_errors split: if_splits)
  have kept: "redis_max_memory spec = Some cap"
    if "resolve c m self is_head node_ip_address = Inr spec" for spec
    using that by (auto simp: resolve_Inr_iff redis split: if_splits)
  from dflt never raised only kept show ?thesis by blast
qed

theorem redis_cap_minimum_witness:
  "resolve sample_constants linux_machine (unset_spec\<lparr>redis_max_memory := Some (PInt 100)\<rparr>) False None
     = Inl ValueError_redis_minimum \<and>
   value_of (default_redis_max_memory sample_constants linux_machine) = 5000000000"
proof -
  let ?s = "unset_spec\<lparr>redis_max_memory := Some (PInt 100)\<rparr>"
  have cap: "PInt 100 = (case redis_max_memory ?s of
                          Some given \<Rightarrow> given
                        | None \<Rightarrow> default_redis_max_memory sample_constants linux_machine)"
    by simp
  have low: "value_of (PInt 100) < value_of (REDIS_MINIMUM_MEMORY_BYTES sample_constants)"
    by code_simp
  have r1: "resolve_resources linux_machine ?s False None = Inr [(''node:10.0.0.7'', PFloat 1)]"
    by code_simp
  have r2: "resolve_accelerator sample_constants linux_machine ?s [(''node:10.0.0.7'', PFloat 1)]
              = Inr (Some (PInt 2), [(''node:10.0.0.7'', PFloat 1), (''accelerator_type:V100'', PInt 1)])"
    by code_simp
  have dflt: "min (value_of (DEFAULT_REDIS_MAX_MEMORY_BYTES sample_constants))
               (max (rat_of_int (trunc (rat_of_int (estimate_available_memory linux_machine) * (1 / 10))))
                    (value_of (REDIS_MINIMUM_MEMORY_BYTES sample_constants))) = 5000000000"
    by code_simp
  from redis_cap_minimum[OF cap, where is_head = False and node_ip_address = None
      and ?res1.0 = "[(''node:10.0.0.7'', PFloat 1)]"
      and acc = "(Some (PInt 2), [(''node:10.0.0.7'', PFloat 1), (''accelerator_type:V100'', PInt 1)])"]
    low r1 r2 dflt
  show ?thesis by simp
qed

text \<open>
  The check of the redis cap comes after the accelerator detection: a request of 4 GPUs
  with two visible devices raises the \<open>ValueError\<close> of the visible devices although the
  redis cap of 100 bytes is below the minimum.
\<close>

theorem redis_minimum_preempted:
  "redis_max_memory (unset_spec\<lparr>num_gpus := Some (PInt 4), redis_max_memory := Some (PInt 100)\<rparr>)
     = Some (PInt 100) \<and>
   py_lt (PInt 100) (REDIS_MINIMUM_MEMORY_BYTES sample_constants) \<and>
   resolve sample_constants two_visible_machine
     (unset_spec\<lparr>num_gpus := Some (PInt 4), redis_max_memory := Some (PInt 100)\<rparr>) False None
     = Inl ValueError_visible_devices \<and>
   resolve sample_constants two_visible_machine
     (unset_spec\<lparr>num_gpus := Some (PInt 4), redis_max_memory := Some (PInt 100)\<rparr>) False None
     \<noteq> Inl ValueError_redis_minimum"
proof -
  have run: "resolve sample_constants two_visible_machine
     (unset_spec\<lparr>num_gpus := Some (PInt 4), redis_max_memory := Some (PInt 100)\<rparr>) False None
     = Inl ValueError_visible_devices"
    by code_simp
  have low: "py_lt (PInt 100) (REDIS_MINIMUM_MEMORY_BYTES sample_constants)"
    by code_simp
  from run low show ?thesis by simp
qed

subsection \<open>An accelerator that is neither CUDA nor XPU\<close>

text \<open>
  Claim C9, as the code has it. When \<open>get_current_accelerator()\<close> is neither \<open>CUDA\<close> nor
  \<open>XPU\<close>, no branch assigns the local \<open>num_gpus\<close> and \<open>resolve\<close> returns no declaration,
  whatever the declaration is, also with \<open>num_gpus\<close> set. It raises the
  \<open>UnboundLocalError\<close> (a \<open>NameError\<close>) exactly when the blocks before the construction of
  the result pass: no reserved name, a redis cap that reaches the minimum, enough
  memory. Otherwise the error of the first block that fails is raised.
\<close>

theorem other_accelerator_never_resolves:
  assumes "get_current_accelerator m \<noteq> ''CUDA''"
    and "get_current_accelerator m \<noteq> ''XPU''"
  shows "(\<forall>spec. resolve c m self is_head node_ip_address \<noteq> Inr spec) \<and>
         (resolve c m self is_head node_ip_address = Inl UnboundLocalError_num_gpus
            \<longleftrightarrow> (\<exists>res1 redis mem.
                   resolve_resources m self is_head node_ip_address = Inr res1 \<and>
                   resolve_redis_max_memory c m self = Inr redis \<and>
                   resolve_memory m self is_head (resolve_object_store_memory c m self) redis = Inr mem))"
proof -
  have acc: "resolve_accelerator c m self d = Inr (None, d)" for d
    using assms by (simp add: resolve_accelerator_def Let_def)
  have never: "resolve c m self is_head node_ip_address \<noteq> Inr spec" for spec
    by (simp add: resolve_Inr_iff acc)
  have unbound: "resolve c m self is_head node_ip_address = Inl UnboundLocalError_num_gpus"
    if "resolve_resources m self is_head node_ip_address = Inr res1"
      and "resolve_redis_max_memory c m self = Inr redis"
      and "resolve_memory m self is_head (resolve_object_store_memory c m self) redis = Inr mem"
    for res1 redis mem
    using resolve_after_blocks[OF that(1) acc that(2)] that(3) by simp
  have blocks: "\<exists>res1 redis mem.
                   resolve_resources m self is_head node_ip_address = Inr res1 \<and>
                   resolve_redis_max_memory c m self = Inr redis \<and>
                   resolve_memory m self is_head (resolve_object_store_memory c m self) redis = Inr mem"
    if "resolve c m self is_head node_ip_address = Inl UnboundLocalError_num_gpus"
    using resolve_Inl_cases[OF that]
    by (auto simp: acc dest: resolve_resources_errors resolve_redis_max_memory_errors
        resolve_memory_errors)
  from never unbound blocks show ?thesis by blast
qed

theorem other_accelerator_never_resolves_witness:
  "resolve sample_constants tpu_machine (unset_spec\<lparr>num_gpus := Some (PInt 1)\<rparr>) False None
     = Inl UnboundLocalError_num_gpus"
proof -
  let ?s = "unset_spec\<lparr>num_gpus := Some (PInt 1)\<rparr>"
  have a1: "get_current_accelerator tpu_machine \<noteq> ''CUDA''"
    by code_simp
  have a2: "get_current_accelerator tpu_machine \<noteq> ''XPU''"
    by code_simp
  have r1: "resolve_resources tpu_machine ?s False None = Inr [(''node:10.0.0.7'', PFloat 1)]"
    by code_simp
  have r3: "resolve_redis_max_memory sample_constants tpu_machine ?s = Inr (PInt 5000000000)"
    by code_simp
  have r4: "resolve_memory tpu_machine ?s False
              (resolve_object_store_memory sample_constants tpu_machine ?s) (PInt 5000000000)
              = Inr (PInt 35000000000)"
    by code_simp
  from other_accelerator_never_resolves[OF a1 a2, of sample_constants ?s False None] r1 r3 r4
  show ?thesis by blast
qed

text \<open>
  The construction of the result is the last statement: with a redis cap of 100 bytes the
  \<open>ValueError\<close> of the redis minimum is raised before the unassigned \<open>num_gpus\<close> is read.
\<close>

theorem unbound_num_gpus_preempted:
  "get_current_accelerator tpu_machine \<noteq> ''CUDA'' \<and>
   get_current_accelerator tpu_machine \<noteq> ''XPU'' \<and>
   resolve sample_constants tpu_machine
     (unset_spec\<lparr>num_gpus := Some (PInt 1), redis_max_memory := Some (PInt 100)\<rparr>) False None
     = Inl ValueError_redis_minimum \<and>
   resolve sample_constants tpu_machine
     (unset_spec\<lparr>num_gpus := Some (PInt 1), redis_max_memory := Some (PInt 100)\<rparr>) False None
     \<noteq> Inl UnboundLocalError_num_gpus"
proof -
  have run: "resolve sample_constants tpu_machine
     (unset_spec\<lparr>num_gpus := Some (PInt 1), redis_max_memory := Some (PInt 100)\<rparr>) False None
     = Inl ValueError_redis_minimum"
    by code_simp
  have acc: "get_current_accelerator tpu_machine = ''TPU''"
    by code_simp
  from run acc show ?thesis by simp
qed

subsection \<open>\<open>to_resource_dict\<close>\<close>

lemma is_integer_of_int: "is_integer (of_int i)"
  by (simp add: is_integer_def)

lemma not_whole_iff: "(is_float q \<and> \<not> is_integer (value_of q)) = (\<not> is_integer (value_of q))"
  by (cases q) (simp_all add: is_integer_of_int)

lemma check_quantities_None:
  "check_quantities c d = None \<longleftrightarrow> list_all (\<lambda>(k, q). quantity_ok c q) d"
proof (induction d)
  case Nil
  show ?case by simp
next
  case (Cons p d)
  obtain k q where p: "p = (k, q)" by (cases p)
  show ?case
    using Cons.IH
    by (auto simp: p not_whole_iff quantity_ok_def py_lt_def py_gt_def)
qed

lemma check_quantities_Some:
  "check_quantities c d = Some e \<Longrightarrow>
   e = ValueError_not_whole \<or> e = ValueError_negative \<or> e = ValueError_exceeds_max"
proof (induction d)
  case Nil
  then show ?case by simp
next
  case (Cons p d)
  obtain k q where p: "p = (k, q)" by (cases p)
  from Cons show ?case
    by (auto simp: p split: if_splits)
qed

lemma nonzero_entries_nonzero: "(k, q) \<in> set (nonzero_entries d) \<Longrightarrow> value_of q \<noteq> 0"
  by (simp add: nonzero_entries_def)

text \<open>
  Claim C3, as the code has it. For a resolved declaration, \<open>to_resource_dict\<close> works on
  the merged dictionary: the custom resources, \<open>CPU\<close>, \<open>GPU\<close>, and \<open>memory\<close> and
  \<open>object_store_memory\<close> after \<open>int\<close> has truncated them, without the entries equal to
  zero. What it returns is this dictionary, and no value in it is zero, fractional,
  negative or above \<open>MAX_RESOURCE_QUANTITY\<close>. An entry of this dictionary that is
  fractional, negative or above the maximum makes it raise one of its three
  \<open>ValueError\<close>s, and without such an entry it returns.
\<close>

theorem to_resource_dict_quantities:
  assumes "resolved s"
  shows "(\<forall>d. to_resource_dict c s = Inr d \<longrightarrow>
            d = nonzero_entries (merged_resources s) \<and>
            (\<forall>(k, q) \<in> set d. value_of q \<noteq> 0 \<and> is_integer (value_of q) \<and> 0 \<le> value_of q \<and>
                                value_of q \<le> value_of (MAX_RESOURCE_QUANTITY c))) \<and>
         ((\<exists>(k, q) \<in> set (nonzero_entries (merged_resources s)).
              \<not> is_integer (value_of q) \<or> value_of q < 0 \<or>
              value_of (MAX_RESOURCE_QUANTITY c) < value_of q) \<longrightarrow>
            to_resource_dict c s = Inl ValueError_not_whole \<or>
            to_resource_dict c s = Inl ValueError_negative \<or>
            to_resource_dict c s = Inl ValueError_exceeds_max) \<and>
         ((\<forall>(k, q) \<in> set (nonzero_entries (merged_resources s)).
              is_integer (value_of q) \<and> 0 \<le> value_of q \<and>
              value_of q \<le> value_of (MAX_RESOURCE_QUANTITY c)) \<longrightarrow>
            to_resource_dict c s = Inr (nonzero_entries (merged_resources s)))"
proof -
  let ?d = "nonzero_entries (merged_resources s)"
  have ok_iff: "list_all (\<lambda>(k, q). quantity_ok c q) ?d \<longleftrightarrow>
                (\<forall>(k, q) \<in> set ?d. is_integer (value_of q) \<and> 0 \<le> value_of q \<and>
                                value_of q \<le> value_of (MAX_RESOURCE_QUANTITY c))"
    by (auto simp: list_all_iff quantity_ok_def)
  show ?thesis
  proof (cases "check_quantities c ?d")
    case None
    then have run: "to_resource_dict c s = Inr ?d"
      using assms by (simp add: to_resource_dict_def)
    from None have all_ok: "\<forall>(k, q) \<in> set ?d. is_integer (value_of q) \<and> 0 \<le> value_of q \<and>
                                value_of q \<le> value_of (MAX_RESOURCE_QUANTITY c)"
      by (simp add: check_quantities_None ok_iff)
    have nz: "\<forall>(k, q) \<in> set ?d. value_of q \<noteq> 0"
      by (auto dest: nonzero_entries_nonzero)
    from run all_ok nz show ?thesis by fastforce
  next
    case (Some e)
    then have run: "to_resource_dict c s = Inl e"
      using assms by (simp add: to_resource_dict_def)
    from Some have bad: "\<not> (\<forall>(k, q) \<in> set ?d. is_integer (value_of q) \<and> 0 \<le> value_of q \<and>
                                value_of q \<le> value_of (MAX_RESOURCE_QUANTITY c))"
      using check_quantities_None[of c ?d] by (simp add: ok_iff)
    from check_quantities_Some[OF Some] run bad show ?thesis by auto
  qed
qed


theorem to_resource_dict_quantities_witness:
  "to_resource_dict sample_constants
     \<lparr>num_cpus = Some (PInt 8), num_gpus = Some (PInt 0), memory = Some (PInt 30000000000),
      object_store_memory = Some (PInt 15000000000),
      resources = Some [(''node:10.0.0.7'', PFloat 1)],
      redis_max_memory = Some (PInt 5000000000)\<rparr>
     = Inr [(''node:10.0.0.7'', PFloat 1), (''CPU'', PInt 8), (''memory'', PInt 30000000000),
            (''object_store_memory'', PInt 15000000000)] \<and>
   (to_resource_dict sample_constants
      \<lparr>num_cpus = Some (PInt 8), num_gpus = Some (PFloat (1 / 2)), memory = Some (PInt 30000000000),
       object_store_memory = Some (PInt 15000000000),
       resources = Some [(''node:10.0.0.7'', PFloat 1)],
       redis_max_memory = Some (PInt 5000000000)\<rparr> = Inl ValueError_not_whole \<or>
    to_resource_dict sample_constants
      \<lparr>num_cpus = Some (PInt 8), num_gpus = Some (PFloat (1 / 2)), memory = Some (PInt 30000000000),
       object_store_memory = Some (PInt 15000000000),
       resources = Some [(''node:10.0.0.7'', PFloat 1)],
       redis_max_memory = Some (PInt 5000000000)\<rparr> = Inl ValueError_negative \<or>
    to_resource_dict sample_constants
      \<lparr>num_cpus = Some (PInt 8), num_gpus = Some (PFloat (1 / 2)), memory = Some (PInt 30000000000),
       object_store_memory = Some (PInt 15000000000),
       resources = Some [(''node:10.0.0.7'', PFloat 1)],
       redis_max_memory = Some (PInt 5000000000)\<rparr> = Inl ValueError_exceeds_max)"
proof -
  let ?good = "\<lparr>num_cpus = Some (PInt 8), num_gpus = Some (PInt 0), memory = Some (PInt 30000000000),
      object_store_memory = Some (PInt 15000000000),
      resources = Some [(''node:10.0.0.7'', PFloat 1)],
      redis_max_memory = Some (PInt 5000000000)\<rparr>"
  let ?bad = "\<lparr>num_cpus = Some (PInt 8), num_gpus = Some (PFloat (1 / 2)), memory = Some (PInt 30000000000),
       object_store_memory = Some (PInt 15000000000),
       resources = Some [(''node:10.0.0.7'', PFloat 1)],
       redis_max_memory = Some (PInt 5000000000)\<rparr>"
  have g: "resolved ?good" and b: "resolved ?bad"
    by (simp_all add: resolved_def)
  have entries: "nonzero_entries (merged_resources ?good) =
                   [(''node:10.0.0.7'', PFloat 1), (''CPU'', PInt 8), (''memory'', PInt 30000000000),
                    (''object_store_memory'', PInt 15000000000)]"
    by code_simp
  have whole: "\<forall>(k, q) \<in> set (nonzero_entries (merged_resources ?good)).
                 is_integer (value_of q) \<and> 0 \<le> value_of q \<and>
                 value_of q \<le> value_of (MAX_RESOURCE_QUANTITY sample_constants)"
    unfolding entries by (simp add: is_integer_def sample_constants_def)
  have gpu: "(''GPU'', PFloat (1 / 2)) \<in> set (nonzero_entries (merged_resources ?bad))"
    by code_simp
  have frac: "\<not> is_integer (value_of (PFloat (1 / 2)))"
    by code_simp
  from gpu frac
  have half: "\<exists>(k, q) \<in> set (nonzero_entries (merged_resources ?bad)).
                 \<not> is_integer (value_of q) \<or> value_of q < 0 \<or>
                 value_of (MAX_RESOURCE_QUANTITY sample_constants) < value_of q"
    by blast
  note good = to_resource_dict_quantities[OF g, of sample_constants]
  note bad = to_resource_dict_quantities[OF b, of sample_constants]
  have "to_resource_dict sample_constants ?good = Inr (nonzero_entries (merged_resources ?good))"
    by (rule good[THEN conjunct2, THEN conjunct2, THEN mp, OF whole])
  then have one: "to_resource_dict sample_constants ?good =
               Inr [(''node:10.0.0.7'', PFloat 1), (''CPU'', PInt 8), (''memory'', PInt 30000000000),
                    (''object_store_memory'', PInt 15000000000)]"
    by (simp only: entries)
  have two: "to_resource_dict sample_constants ?bad = Inl ValueError_not_whole \<or>
             to_resource_dict sample_constants ?bad = Inl ValueError_negative \<or>
             to_resource_dict sample_constants ?bad = Inl ValueError_exceeds_max"
    by (rule bad[THEN conjunct2, THEN conjunct1, THEN mp, OF half])
  show ?thesis
    by (rule conjI[OF one two])
qed

text \<open>
  The truncation by \<open>int\<close> comes before the check: on the machine whose shared memory
  bounds the object store, \<open>resolve\<close> returns a declaration with a fractional
  \<open>object_store_memory\<close> and a fractional \<open>memory\<close>, and \<open>to_resource_dict\<close> returns for
  it, with both values cut to whole numbers.
\<close>

theorem fractional_object_store_truncated:
  "resolve sample_constants shm_bound_machine unset_spec True None =
     Inr \<lparr>num_cpus = Some (PInt 8), num_gpus = Some (PInt 2),
          memory = Some (PFloat (159199999981 / 2)),
          object_store_memory = Some (PFloat (60800000019 / 2)),
          resources = Some [(''node:10.0.0.7'', PFloat 1), (''node:__internal_head__'', PFloat 1),
                            (''accelerator_type:V100'', PInt 1)],
          redis_max_memory = Some (PInt 10000000000)\<rparr> \<and>
   \<not> is_integer (60800000019 / 2) \<and>
   \<not> is_integer (159199999981 / 2) \<and>
   to_resource_dict sample_constants
     \<lparr>num_cpus = Some (PInt 8), num_gpus = Some (PInt 2),
      memory = Some (PFloat (159199999981 / 2)),
      object_store_memory = Some (PFloat (60800000019 / 2)),
      resources = Some [(''node:10.0.0.7'', PFloat 1), (''node:__internal_head__'', PFloat 1),
                        (''accelerator_type:V100'', PInt 1)],
      redis_max_memory = Some (PInt 10000000000)\<rparr> =
     Inr [(''node:10.0.0.7'', PFloat 1), (''node:__internal_head__'', PFloat 1),
          (''accelerator_type:V100'', PInt 1), (''CPU'', PInt 8), (''GPU'', PInt 2),
          (''memory'', PInt 79599999990), (''object_store_memory'', PInt 30400000009)]"
proof -
  have run: "resolve sample_constants shm_bound_machine unset_spec True None =
     Inr \<lparr>num_cpus = Some (PInt 8), num_gpus = Some (PInt 2),
          memory = Some (PFloat (159199999981 / 2)),
          object_store_memory = Some (PFloat (60800000019 / 2)),
          resources = Some [(''node:10.0.0.7'', PFloat 1), (''node:__internal_head__'', PFloat 1),
                            (''accelerator_type:V100'', PInt 1)],
          redis_max_memory = Some (PInt 10000000000)\<rparr>"
    by code_simp
  have frac: "\<not> is_integer (60800000019 / 2)" "\<not> is_integer (159199999981 / 2)"
    by code_simp+
  have flat: "to_resource_dict sample_constants
     \<lparr>num_cpus = Some (PInt 8), num_gpus = Some (PInt 2),
      memory = Some (PFloat (159199999981 / 2)),
      object_store_memory = Some (PFloat (60800000019 / 2)),
      resources = Some [(''node:10.0.0.7'', PFloat 1), (''node:__internal_head__'', PFloat 1),
                        (''accelerator_type:V100'', PInt 1)],
      redis_max_memory = Some (PInt 10000000000)\<rparr> =
     Inr [(''node:10.0.0.7'', PFloat 1), (''node:__internal_head__'', PFloat 1),
          (''accelerator_type:V100'', PInt 1), (''CPU'', PInt 8), (''GPU'', PInt 2),
          (''memory'', PInt 79599999990), (''object_store_memory'', PInt 30400000009)]"
    by code_simp
  show ?thesis
    by (intro conjI run frac flat)
qed

subsection \<open>A failing probe\<close>

text \<open>
  Claim C8 on a Windows machine without GPUtil on which \<open>WMIC\<close> cannot be started. The
  \<open>try\<close> block of \<open>_get_cuda_info\<close> guards the detection of the type only; the call of
  \<open>_autodetect_num_gpus\<close> stands before it, and the exception that
  \<open>subprocess.check_output\<close> raises leaves \<open>_autodetect_num_gpus\<close>, \<open>_get_cuda_info\<close>
  and \<open>resolve\<close>.
\<close>

theorem wmic_failure_propagates:
  "autodetect_num_gpus windows_machine = Inl (Propagated ''FileNotFoundError'') \<and>
   get_cuda_info sample_constants windows_machine None = Inl (Propagated ''FileNotFoundError'') \<and>
   resolve sample_constants windows_machine unset_spec False None
     = Inl (Propagated ''FileNotFoundError'')"
proof -
  have a: "autodetect_num_gpus windows_machine = Inl (Propagated ''FileNotFoundError'')"
    by code_simp
  have b: "get_cuda_info sample_constants windows_machine None = Inl (Propagated ''FileNotFoundError'')"
    by code_simp
  have c: "resolve sample_constants windows_machine unset_spec False None
             = Inl (Propagated ''FileNotFoundError'')"
    by code_simp
  show ?thesis
    by (intro conjI a b c)
qed

end
